theory Spec2Isabelle
  imports Complex_Main "HOL-Library.Word"
begin

unbundle bit_operations_syntax

section \<open>Configuration data model (package config)\<close>

text \<open>
  Go's fixed-width integers are words: \<open>uint8\<close> is \<open>8 word\<close>, \<open>int32\<close> and
  \<open>uint32\<close> are \<open>32 word\<close> (read with \<open>sint\<close> resp. \<open>unat\<close>), \<open>int64\<close> is
  \<open>64 word\<close>.  Go's \<open>int\<close> values that are only compared (never overflowed) are
  \<open>int\<close>.  A \<open>net.IP\<close> is a byte slice.
\<close>

type_synonym uint8 = "8 word"
type_synonym int32 = "32 word"
type_synonym uint32 = "32 word"
type_synonym int64 = "64 word"
type_synonym IP = "8 word list"

definition AF_INET :: uint8 where
  "AF_INET = 2"

definition AF_INET6 :: uint8 where
  "AF_INET6 = 10"

definition RT_TABLE_MAIN :: int where
  "RT_TABLE_MAIN = 254"

definition RT_TABLE_LOCAL :: int where
  "RT_TABLE_LOCAL = 255"

text \<open>\<open>type Host struct\<close>; durations are nanoseconds.\<close>

record Host =
  hName :: string
  hHost :: IP
  hDebug :: bool
  hFamily :: uint8
  hBurstInterval :: int
  hBurstSize :: int
  hICMPInterval :: int
  hICMPTimeout :: int

text \<open>\<open>type Interface struct\<close>.\<close>

record Interface =
  Name :: string
  Description :: string
  Debug :: bool
  Table :: uint32
  Metric :: uint32
  UpAction :: string
  DownAction :: string
  BurstInterval :: int
  BurstSize :: int
  ICMPInterval :: int
  ICMPTimeout :: int
  MinimumUp :: int
  upHostsv4 :: int32
  upHostsv6 :: int32
  totalHostsv4 :: int32
  totalHostsv6 :: int32
  Hosts :: "Host list"

subsection \<open>The per-family counters\<close>

text \<open>
  \<open>atomic.AddInt32\<close> returns the new value and \<open>atomic.StoreInt32\<close> overwrites; each
  method is modelled as one sequential step returning the flag and the updated interface.
  \<open>int32(i.MinimumUp)\<close> is \<open>word_of_int\<close>.
\<close>

definition LinkDown :: "Interface \<Rightarrow> Interface" where
  "LinkDown i = i\<lparr>upHostsv4 := 0, upHostsv6 := 0\<rparr>"

definition hostDownv4 :: "Interface \<Rightarrow> bool \<times> Interface" where
  "hostDownv4 i =
     (let up = upHostsv4 i - 1;
          i1 = i\<lparr>upHostsv4 := up\<rparr>;
          i2 = (if sint up < 0 then i1\<lparr>upHostsv6 := 0\<rparr> else i1)
      in (up = word_of_int (MinimumUp i) - 1, i2))"

definition hostUpv4 :: "Interface \<Rightarrow> bool \<times> Interface" where
  "hostUpv4 i =
     (let up = upHostsv4 i + 1;
          i1 = i\<lparr>upHostsv4 := up\<rparr>;
          i2 = (if sint up > sint (totalHostsv4 i1) then i1\<lparr>upHostsv4 := totalHostsv4 i1\<rparr> else i1)
      in (up = word_of_int (MinimumUp i), i2))"

definition hostDownv6 :: "Interface \<Rightarrow> bool \<times> Interface" where
  "hostDownv6 i =
     (let up = upHostsv6 i - 1;
          i1 = i\<lparr>upHostsv6 := up\<rparr>;
          i2 = (if sint up < 0 then i1\<lparr>upHostsv6 := 0\<rparr> else i1)
      in (up = word_of_int (MinimumUp i) - 1, i2))"

definition hostUpv6 :: "Interface \<Rightarrow> bool \<times> Interface" where
  "hostUpv6 i =
     (let up = upHostsv6 i + 1;
          i1 = i\<lparr>upHostsv6 := up\<rparr>;
          i2 = (if sint up > sint (totalHostsv6 i1) then i1\<lparr>upHostsv6 := totalHostsv6 i1\<rparr> else i1)
      in (up = word_of_int (MinimumUp i), i2))"

definition HostDown :: "uint8 \<Rightarrow> Interface \<Rightarrow> bool \<times> Interface" where
  "HostDown family i = (if family = AF_INET then hostDownv4 i else hostDownv6 i)"

definition HostUp :: "uint8 \<Rightarrow> Interface \<Rightarrow> bool \<times> Interface" where
  "HostUp family i = (if family = AF_INET then hostUpv4 i else hostUpv6 i)"

definition Up4 :: "Interface \<Rightarrow> int32" where
  "Up4 i = upHostsv4 i"

definition Up6 :: "Interface \<Rightarrow> int32" where
  "Up6 i = upHostsv6 i"

definition Up :: "uint8 \<Rightarrow> Interface \<Rightarrow> int32" where
  "Up family i = (if family = AF_INET then Up4 i else Up6 i)"

text \<open>The number of configured hosts of a family, selected as \<open>Up\<close> selects the counter.\<close>

definition Total :: "uint8 \<Rightarrow> Interface \<Rightarrow> int32" where
  "Total family i = (if family = AF_INET then totalHostsv4 i else totalHostsv6 i)"

text \<open>A sequence of interleaved calls on one interface.\<close>

datatype call = CallHostUp uint8 | CallHostDown uint8

fun do_call :: "call \<Rightarrow> Interface \<Rightarrow> Interface" where
  "do_call (CallHostUp f) i = snd (HostUp f i)"
| "do_call (CallHostDown f) i = snd (HostDown f i)"

fun run_calls :: "call list \<Rightarrow> Interface \<Rightarrow> Interface" where
  "run_calls [] i = i"
| "run_calls (c # cs) i = run_calls cs (do_call c i)"

text \<open>The bound of the specification on the IPv6 counter, for a total below the int32 maximum.\<close>

definition v6_in_bounds :: "Interface \<Rightarrow> bool" where
  "v6_in_bounds i \<longleftrightarrow> 0 \<le> sint (upHostsv6 i) \<and> sint (upHostsv6 i) \<le> sint (totalHostsv6 i)
     \<and> sint (totalHostsv6 i) < 2147483647"

text \<open>
  An interface as \<open>parseInterface\<close> leaves it for one IPv4 and one IPv6 host with
  \<open>minimum_up = 1\<close>: both counters 0, both totals 1.
\<close>

definition dual_stack :: Interface where
  "dual_stack = \<lparr>Name = ''eth0'', Description = '''', Debug = False, Table = 2, Metric = 1000,
     UpAction = '''', DownAction = '''', BurstInterval = 15000000000, BurstSize = 3,
     ICMPInterval = 2000000000, ICMPTimeout = 250000000, MinimumUp = 1,
     upHostsv4 = 0, upHostsv6 = 0, totalHostsv4 = 1, totalHostsv6 = 1,
     Hosts = [
       \<lparr>hName = ''Cloudflare'', hHost = [1, 1, 1, 1], hDebug = False, hFamily = AF_INET,
         hBurstInterval = 15000000000, hBurstSize = 3, hICMPInterval = 2000000000,
         hICMPTimeout = 250000000\<rparr>,
       \<lparr>hName = ''Cloudflare6'',
         hHost = [0x26, 0x06, 0x47, 0x00, 0x47, 0x00, 0, 0, 0, 0, 0, 0, 0, 0, 0x11, 0x11],
         hDebug = False, hFamily = AF_INET6,
         hBurstInterval = 15000000000, hBurstSize = 3, hICMPInterval = 2000000000,
         hICMPTimeout = 250000000\<rparr>]\<rparr>"

section \<open>The netlink transport and the outside world\<close>

text \<open>
  \<open>rtnetlink.RouteMessage\<close> with the fields the daemon reads or writes: the header's
  family, destination length, 8-bit table and flags, and the attributes destination,
  gateway (a nil \<open>net.IP\<close> is \<open>None\<close>), output interface, priority and 32-bit table.
\<close>

record RouteMessage =
  rFamily :: uint8
  rDstLength :: uint8
  rTable :: uint8
  rFlags :: uint32
  aDst :: "IP option"
  aGateway :: "IP option"
  aOutIface :: uint32
  aPriority :: uint32
  aTable :: uint32

text \<open>
  \<open>rtnetlink.RuleMessage\<close> as \<open>ruleAdd\<close> builds it; the attributes' pointers are always
  set there, so they are plain values.
\<close>

record RuleMessage =
  ruFamily :: uint8
  ruSrcLength :: uint8
  ruDstLength :: uint8
  ruAction :: uint8
  ruSrc :: IP
  ruDst :: IP
  ruTable :: uint32
  ruPriority :: uint32

datatype error = EEXIST | ESRCH | Err string | Wrap string error

text \<open>\<open>exec.Cmd\<close>: \<open>Args\<close> holds the command name followed by its arguments.\<close>

record Cmd =
  Path :: string
  Args :: "string list"
  Env :: "string list"

text \<open>\<open>net.IPNet\<close>: an address and a mask.\<close>

record IPNet =
  nIP :: IP
  nMask :: "8 word list"

text \<open>Arguments of a log call; \<open>AIP\<close> is an address printed through \<open>IP.String\<close>.\<close>

datatype arg = AStr string | AInt int | ABool bool | AErr error | AIfi Interface | AIP IP
  | AHost Host | ANet "IPNet option"

datatype effect =
    Debugf string "arg list"
  | Printf string "arg list"
  | Exec Cmd
  | RouteAdd RouteMessage
  | RouteDelete RouteMessage
  | RouteReplace RouteMessage
  | RuleAdd RuleMessage
  | StartMonitor string IP Host

text \<open>
  The server's view of the world: the kernel's routes (what \<open>Route.List\<close> returns), the
  error \<open>Route.List\<close> fails with (if any), the index \<open>net.InterfaceByName\<close> resolves a
  name to (if any), the outcome of running a command (combined output and error), and
  the trace of everything the server did to the outside, oldest first: log calls,
  commands run, netlink requests sent and probers started.  \<open>tables\<close> keeps the
  kernel's routes as they were after each route request, oldest first, and \<open>rules\<close>
  are the kernel's policy rules.
\<close>

record Server =
  routes :: "RouteMessage list"
  tables :: "RouteMessage list list"
  rules :: "RuleMessage list"
  listErr :: "error option"
  InterfaceByName :: "string \<Rightarrow> int option"
  CombinedOutput :: "Cmd \<Rightarrow> string \<times> error option"
  trace :: "effect list"

definition emit :: "effect \<Rightarrow> Server \<Rightarrow> Server" where
  "emit e s = s\<lparr>trace := trace s @ [e]\<rparr>"

text \<open>
  The kernel side of route requests, as far as the daemon depends on it: a route is
  identified by family, table, destination, destination length and priority; \<open>Add\<close>
  (create, exclusive) fails with \<open>EEXIST\<close> when the route exists; \<open>Delete\<close> removes the
  first matching route and fails with \<open>ESRCH\<close> when there is none; \<open>Replace\<close>
  overwrites the first matching route or creates it.
\<close>

definition same_route :: "RouteMessage \<Rightarrow> RouteMessage \<Rightarrow> bool" where
  "same_route a b \<longleftrightarrow> rFamily a = rFamily b \<and> aTable a = aTable b \<and> aDst a = aDst b
     \<and> rDstLength a = rDstLength b \<and> aPriority a = aPriority b"

fun delete_first :: "RouteMessage \<Rightarrow> RouteMessage list \<Rightarrow> RouteMessage list" where
  "delete_first m [] = []"
| "delete_first m (r # rs) = (if same_route r m then rs else r # delete_first m rs)"

fun replace_first :: "RouteMessage \<Rightarrow> RouteMessage list \<Rightarrow> RouteMessage list" where
  "replace_first m [] = [m]"
| "replace_first m (r # rs) = (if same_route r m then m # rs else r # replace_first m rs)"

definition set_routes :: "RouteMessage list \<Rightarrow> Server \<Rightarrow> Server" where
  "set_routes rs s = s\<lparr>routes := rs, tables := tables s @ [rs]\<rparr>"

definition Route_Add :: "RouteMessage \<Rightarrow> Server \<Rightarrow> error option \<times> Server" where
  "Route_Add m s =
     (let s1 = emit (RouteAdd m) s
      in if list_ex (\<lambda>r. same_route r m) (routes s1) then (Some EEXIST, set_routes (routes s1) s1)
         else (None, set_routes (routes s1 @ [m]) s1))"

definition Route_Delete :: "RouteMessage \<Rightarrow> Server \<Rightarrow> error option \<times> Server" where
  "Route_Delete m s =
     (let s1 = emit (RouteDelete m) s
      in if list_ex (\<lambda>r. same_route r m) (routes s1)
         then (None, set_routes (delete_first m (routes s1)) s1)
         else (Some ESRCH, set_routes (routes s1) s1))"

definition Route_Replace :: "RouteMessage \<Rightarrow> Server \<Rightarrow> error option \<times> Server" where
  "Route_Replace m s =
     (let s1 = emit (RouteReplace m) s
      in (None, set_routes (replace_first m (routes s1)) s1))"

text \<open>\<open>Rule.Add\<close> fails with \<open>EEXIST\<close> when the same rule is installed already.\<close>

definition Rule_Add :: "RuleMessage \<Rightarrow> Server \<Rightarrow> error option \<times> Server" where
  "Rule_Add m s =
     (let s1 = emit (RuleAdd m) s
      in if m \<in> set (rules s1) then (Some EEXIST, s1)
         else (None, s1\<lparr>rules := rules s1 @ [m]\<rparr>))"

definition Route_List :: "Server \<Rightarrow> error + RouteMessage list" where
  "Route_List s = (case listErr s of Some e \<Rightarrow> Inl e | None \<Rightarrow> Inr (routes s))"

section \<open>Next-hop handling (package server)\<close>

text \<open>\<open>fmt.Sprintf("%d", n)\<close>: decimal digits, with a minus sign for negative values.\<close>

fun digits :: "nat \<Rightarrow> string" where
  "digits n = (if n < 10 then [''0123456789'' ! n]
               else digits (n div 10) @ [''0123456789'' ! (n mod 10)])"

declare digits.simps [simp del]

definition Sprintf_d :: "int \<Rightarrow> string" where
  "Sprintf_d n = (if n < 0 then CHR ''-'' # digits (nat (- n)) else digits (nat n))"

definition fam :: "uint8 \<Rightarrow> string" where
  "fam family = (if family = AF_INET6 then ''IPv6''
                 else if family = AF_INET then ''IPv4''
                 else ''UNKNOWN'')"

definition ifiToEnv :: "Interface \<Rightarrow> string list" where
  "ifiToEnv ifi =
     [''NAME='' @ Name ifi,
      ''DESCRIPTION='' @ [CHR 0x27] @ Description ifi @ [CHR 0x27],
      ''TABLE='' @ Sprintf_d (uint (Table ifi)),
      ''UP_HOSTS4='' @ Sprintf_d (sint (Up4 ifi)),
      ''UP_HOSTS6='' @ Sprintf_d (sint (Up6 ifi)),
      ''MINIMUM_UP='' @ Sprintf_d (MinimumUp ifi)]"

text \<open>
  The \<open>exec.Cmd\<close> that \<open>execScript\<close> builds for a script: the command line of
  \<open>exec.CommandContext\<close> and the environment assigned to \<open>cmd.Env\<close>.
\<close>

definition hookCmd :: "string \<Rightarrow> string \<Rightarrow> uint8 \<Rightarrow> Interface \<Rightarrow> Cmd" where
  "hookCmd script event family ifi =
     \<lparr>Path = ''/run/current-system/sw/bin/env'',
      Args = [''/run/current-system/sw/bin/env'', ''sh'', ''-c'',
              [CHR 0x27] @ script @ [CHR 0x27]],
      Env = [''EVENT='' @ event, ''FAMILY='' @ fam family] @ ifiToEnv ifi\<rparr>"

text \<open>
  \<open>execScript\<close> returns the command's combined output and error; with an empty script it
  returns \<open>(nil, nil)\<close> and runs nothing.
\<close>

definition execScript :: "string \<Rightarrow> uint8 \<Rightarrow> Interface \<Rightarrow> Server \<Rightarrow> (string \<times> error option) \<times> Server" where
  "execScript event family ifi s =
     (let script = (if event = ''DOWN'' then DownAction ifi else UpAction ifi)
      in if script = [] then (([], None), s)
         else
           let cmd = hookCmd script event family ifi
           in (CombinedOutput s cmd, emit (Exec cmd) s))"

definition is_gateway_of :: "uint32 \<Rightarrow> uint8 \<Rightarrow> int \<Rightarrow> RouteMessage \<Rightarrow> bool" where
  "is_gateway_of table family idx msg \<longleftrightarrow>
     aTable msg = table \<and> rFamily msg = family \<and> aOutIface msg = word_of_int idx
     \<and> aGateway msg \<noteq> None"

definition addGatewaysFor :: "Interface \<Rightarrow> uint8 \<Rightarrow> Server \<Rightarrow> error option \<times> Server" where
  "addGatewaysFor ifi family s =
     (case InterfaceByName s (Name ifi) of
        None \<Rightarrow> (Some (Err ''no such network interface''), s)
      | Some idx \<Rightarrow>
          (case Route_List s of
             Inl e \<Rightarrow> (Some e, s)
           | Inr msgs \<Rightarrow>
               (None, foldl (\<lambda>s msg.
                  if is_gateway_of (Table ifi) family idx msg
                  then snd (Route_Replace
                         (msg\<lparr>rTable := 254, aTable := 254, aPriority := Metric ifi\<rparr>) s)
                  else s) s msgs)))"

definition deleteGatewaysFor :: "Interface \<Rightarrow> uint8 \<Rightarrow> Server \<Rightarrow> error option \<times> Server" where
  "deleteGatewaysFor ifi family s =
     (case InterfaceByName s (Name ifi) of
        None \<Rightarrow> (Some (Err ''no such network interface''), s)
      | Some idx \<Rightarrow>
          (case Route_List s of
             Inl e \<Rightarrow> (Some e, s)
           | Inr msgs \<Rightarrow>
               (None, foldl (\<lambda>s msg.
                  if is_gateway_of 254 family idx msg
                  then snd (Route_Delete msg s)
                  else s) s msgs)))"

text \<open>
  The netlink requests of \<open>deleteGatewaysFor\<close> and of \<open>addGatewaysFor\<close>, in the order
  they are sent: one per gateway route of the interface in the listing.
\<close>

definition demotions :: "Interface \<Rightarrow> uint8 \<Rightarrow> Server \<Rightarrow> effect list" where
  "demotions ifi family s =
     (case InterfaceByName s (Name ifi) of
        None \<Rightarrow> []
      | Some idx \<Rightarrow>
          (case Route_List s of
             Inl e \<Rightarrow> []
           | Inr msgs \<Rightarrow> map RouteDelete (filter (is_gateway_of 254 family idx) msgs)))"

definition promotions :: "Interface \<Rightarrow> uint8 \<Rightarrow> Server \<Rightarrow> effect list" where
  "promotions ifi family s =
     (case InterfaceByName s (Name ifi) of
        None \<Rightarrow> []
      | Some idx \<Rightarrow>
          (case Route_List s of
             Inl e \<Rightarrow> []
           | Inr msgs \<Rightarrow>
               map (\<lambda>msg. RouteReplace (msg\<lparr>rTable := 254, aTable := 254, aPriority := Metric ifi\<rparr>))
                 (filter (is_gateway_of (Table ifi) family idx) msgs)))"

text \<open>
  The body of \<open>if linkDown || belowMinimum\<close> in \<open>nextHopFail\<close> (the spec's
  Family-Down) and the body of \<open>if atMinimum\<close> in \<open>nextHopAvailable\<close> (the spec's
  Family-Up): announce, run the hook, log a failure and any output, then demote resp.
  promote the gateways.  The errors of the gateway functions are dropped, as in the source.
\<close>

definition log_script_result :: "string \<Rightarrow> string \<times> error option \<Rightarrow> Server \<Rightarrow> Server" where
  "log_script_result fmt r s =
     (let s1 = (case snd r of Some e \<Rightarrow> emit (Printf fmt [AErr e]) s | None \<Rightarrow> s)
      in if length (fst r) > 0 then emit (Printf ''>>> %q'' [AStr (fst r)]) s1 else s1)"

definition familyDown :: "Interface \<Rightarrow> uint8 \<Rightarrow> Server \<Rightarrow> Server" where
  "familyDown ifi family s =
     (let s2 = emit (Printf ''nextHopFail: family %s, interface %q''
                 [AStr (fam family), AStr (Name ifi)]) s;
          (r, s3) = execScript ''DOWN'' family ifi s2;
          s4 = log_script_result ''nextHopFail: could not run down_action: %s'' r s3
      in snd (deleteGatewaysFor ifi family s4))"

definition familyUp :: "Interface \<Rightarrow> uint8 \<Rightarrow> Server \<Rightarrow> Server" where
  "familyUp ifi family s =
     (let s2 = emit (Printf ''nextHopAvailable: family %s, interface %q''
                 [AStr (fam family), AStr (Name ifi)]) s;
          (r, s3) = execScript ''UP'' family ifi s2;
          s4 = log_script_result ''nextHopAvailable: could not run up_action: %s'' r s3
      in snd (addGatewaysFor ifi family s4))"

definition nextHopFail :: "Interface \<Rightarrow> uint8 \<Rightarrow> bool \<Rightarrow> Server \<Rightarrow> Interface \<times> Server" where
  "nextHopFail ifi family linkDown s =
     (let (belowMinimum, ifi1, s1) =
            (if linkDown
             then (let ifi1 = LinkDown ifi
                   in (False, ifi1, emit (Debugf ''linkDown: interface %v'' [AIfi ifi1]) s))
             else (let (b, ifi1) = HostDown family ifi
                   in (b, ifi1, emit (Printf ''hostDown: family %s, interface %s, up %d/%d, below: %t''
                         [AStr (fam family), AStr (Name ifi1), AInt (sint (Up family ifi1)),
                          AInt (MinimumUp ifi1), ABool b]) s)))
      in if linkDown \<or> belowMinimum
         then (ifi1, familyDown ifi1 family s1)
         else (ifi1, s1))"

definition nextHopFailLink :: "Interface \<Rightarrow> Server \<Rightarrow> Interface \<times> Server" where
  "nextHopFailLink ifi s =
     (let (ifi1, s1) = nextHopFail ifi AF_INET True s
      in nextHopFail ifi1 AF_INET6 True s1)"

definition nextHopAvailable :: "Interface \<Rightarrow> uint8 \<Rightarrow> Server \<Rightarrow> Interface \<times> Server" where
  "nextHopAvailable ifi family s =
     (let (atMinimum, ifi1) = HostUp family ifi;
          s1 = emit (Printf ''hostUp: family %s, interface %s, up %d/%d, at: %t''
                 [AStr (fam family), AStr (Name ifi1), AInt (sint (Up family ifi1)),
                  AInt (MinimumUp ifi1), ABool atMinimum]) s
      in if atMinimum
         then (ifi1, familyUp ifi1 family s1)
         else (ifi1, s1))"

section \<open>Changing a route's metric (package routesync)\<close>

text \<open>\<open>ChangeMetric\<close> of \<open>internal/routesync/metric.go\<close>; \<open>msg\<close> is passed by value.\<close>

definition ChangeMetric :: "Server \<Rightarrow> RouteMessage \<Rightarrow> uint32 \<Rightarrow> error option \<times> Server" where
  "ChangeMetric conn msg metric =
     (let msg1 = msg\<lparr>rFlags := 0\<rparr>
      in case Route_Delete msg1 conn of
           (Some e, c1) \<Rightarrow> (Some (Wrap ''change metric error: unable to delete route: %w'' e), c1)
         | (None, c1) \<Rightarrow>
             (let msg2 = msg1\<lparr>aPriority := metric\<rparr>
              in case Route_Add msg2 c1 of
                   (Some e, c2) \<Rightarrow> (Some (Wrap ''change metric error: unable to add route: %w'' e), c2)
                 | (None, c2) \<Rightarrow> (None, c2)))"

text \<open>
  The other \<open>ChangeMetric\<close> of package routesync in the sources (first file of
  \<open>unnamed/part_000\<close>), commented there "we add first, to prevent moment without route".
\<close>

definition ChangeMetric_add_first :: "Server \<Rightarrow> RouteMessage \<Rightarrow> uint32 \<Rightarrow> error option \<times> Server" where
  "ChangeMetric_add_first conn msg metric =
     (let orgMetrc = aPriority msg;
          msg1 = msg\<lparr>rFlags := 0\<rparr>;
          msg2 = msg1\<lparr>aPriority := metric\<rparr>
      in case Route_Add msg2 conn of
           (Some e, c1) \<Rightarrow> (Some (Wrap ''change metric error: unable to add route: %w'' e), c1)
         | (None, c1) \<Rightarrow>
             (let msg3 = msg2\<lparr>aPriority := orgMetrc\<rparr>
              in case Route_Delete msg3 c1 of
                   (Some e, c2) \<Rightarrow> (Some (Wrap ''change metric error: unable to delete route: %w'' e), c2)
                 | (None, c2) \<Rightarrow> (None, c2)))"

text \<open>Whether a table holds a route to the destination of \<open>msg\<close> in \<open>msg\<close>'s table.\<close>

definition has_route_to :: "RouteMessage \<Rightarrow> RouteMessage list \<Rightarrow> bool" where
  "has_route_to msg rs = list_ex (\<lambda>r. rFamily r = rFamily msg \<and> aTable r = aTable msg
     \<and> aDst r = aDst msg \<and> rDstLength r = rDstLength msg) rs"

section \<open>Policy rules (package server)\<close>

text \<open>
  Go's \<open>net\<close> package, as far as \<open>ruleAdd\<close> and \<open>linkUp\<close> use it.  \<open>To4\<close> returns the
  4-byte form of an IPv4 address (also of an IPv4-mapped 16-byte one) and nil otherwise.
\<close>

definition To4 :: "IP \<Rightarrow> IP option" where
  "To4 ip = (if length ip = 4 then Some ip
             else if length ip = 16 \<and> list_all (\<lambda>b. b = 0) (take 10 ip)
                     \<and> ip ! 10 = 0xff \<and> ip ! 11 = 0xff then Some (drop 12 ip)
             else None)"

text \<open>
  \<open>IPMask.Size\<close>: the number of leading ones and the number of bits of a canonical
  mask, \<open>(0, 0)\<close> for any other mask.
\<close>

fun leading_ones :: "nat \<Rightarrow> 8 word \<Rightarrow> nat \<times> 8 word" where
  "leading_ones 0 v = (0, v)"
| "leading_ones (Suc k) v =
     (if v AND 0x80 \<noteq> 0
      then (let (n, v') = leading_ones k (push_bit 1 v) in (Suc n, v'))
      else (0, v))"

fun simpleMaskLength :: "8 word list \<Rightarrow> nat option" where
  "simpleMaskLength [] = Some 0"
| "simpleMaskLength (v # vs) =
     (if v = 0xff then map_option (\<lambda>n. n + 8) (simpleMaskLength vs)
      else (let (n, v') = leading_ones 8 v
            in if v' \<noteq> 0 then None
               else if list_all (\<lambda>b. b = 0) vs then Some n else None))"

definition Size :: "8 word list \<Rightarrow> nat \<times> nat" where
  "Size m = (case simpleMaskLength m of None \<Rightarrow> (0, 0) | Some ones \<Rightarrow> (ones, length m * 8))"

text \<open>
  \<open>net.CIDRMask\<close>, and \<open>net.ParseCIDR(fmt.Sprintf("%s/%d", ip, n))\<close> for an address
  \<open>ip\<close> printed by \<open>IP.String\<close>: the network of the address under an \<open>n\<close>-bit mask,
  nil when \<open>n\<close> is too large for the address family or the address is malformed.
\<close>

definition CIDRMask :: "nat \<Rightarrow> nat \<Rightarrow> 8 word list" where
  "CIDRMask ones bits =
     map (\<lambda>i. if 8 * (i + 1) \<le> ones then 0xff
               else if ones \<le> 8 * i then 0
               else NOT (mask (8 - (ones - 8 * i)))) [0..<bits div 8]"

definition hostCIDR :: "IP \<Rightarrow> nat \<Rightarrow> IPNet option" where
  "hostCIDR ip n =
     (case To4 ip of
        Some ip4 \<Rightarrow>
          (if n \<le> 32
           then Some \<lparr>nIP = map2 (AND) ip4 (CIDRMask n 32), nMask = CIDRMask n 32\<rparr>
           else None)
      | None \<Rightarrow>
          (if length ip = 16 \<and> n \<le> 128
           then Some \<lparr>nIP = map2 (AND) ip (CIDRMask n 128), nMask = CIDRMask n 128\<rparr>
           else None))"

definition netIPPtr :: "IP \<Rightarrow> IP" where
  "netIPPtr v = (case To4 v of Some ip4 \<Rightarrow> ip4 | None \<Rightarrow> v)"

text \<open>A call either panics (nil dereference, a refused timer interval) or returns.\<close>

datatype 'a outcome = Panics string | Returns 'a

definition FR_ACT_TO_TBL :: uint8 where
  "FR_ACT_TO_TBL = 1"

definition ruleAdd :: "IPNet option \<Rightarrow> IPNet option \<Rightarrow> uint32 \<Rightarrow> uint32 \<Rightarrow> uint8 \<Rightarrow> Server
    \<Rightarrow> (error option \<times> Server) outcome" where
  "ruleAdd from to table priority family s =
     (case from of
        None \<Rightarrow> Returns (Some (Err ''ipRuleDo: from ip is nil''), s)
      | Some f \<Rightarrow>
          (case to of
             None \<Rightarrow> Panics ''invalid memory address or nil pointer dereference''
           | Some t \<Rightarrow>
               (let srcSize = fst (Size (nMask f));
                    dstSize = fst (Size (nMask t));
                    msg = \<lparr>ruFamily = family, ruSrcLength = of_nat srcSize,
                           ruDstLength = of_nat dstSize, ruAction = FR_ACT_TO_TBL,
                           ruSrc = netIPPtr (nIP f), ruDst = netIPPtr (nIP t),
                           ruTable = table, ruPriority = priority\<rparr>;
                    msg1 = (if To4 (nIP f) = None then msg\<lparr>ruFamily := AF_INET6\<rparr> else msg)
                in Returns (Rule_Add msg1 s))))"

section \<open>Link events (package server)\<close>

text \<open>
  \<open>addICMPMonitor\<close>: \<open>icmp.New\<close> cannot fail with the options given, so the prober is
  always registered and started and the result is nil.
\<close>

definition addICMPMonitor :: "Interface \<Rightarrow> IP \<Rightarrow> Host \<Rightarrow> Server \<Rightarrow> error option \<times> Server" where
  "addICMPMonitor ifi src host s =
     (let s1 = emit (Debugf ''addICMPMonitor: add monitor on interface %q for host %+v''
                  [AStr (Name ifi), AHost host]) s
      in (None, emit (StartMonitor (Name ifi) src host) s1))"

text \<open>
  The state of the goroutine that \<open>linkUp\<close> starts: the two flags, the two backoff
  values (\<open>time.Duration\<close>, an int64) and the period of each ticker in nanoseconds,
  \<open>None\<close> for a stopped ticker.
\<close>

record discovery =
  hasipv4 :: bool
  hasipv6 :: bool
  backoff4 :: int64
  backoff6 :: int64
  timer4 :: "int64 option"
  timer6 :: "int64 option"

definition Second :: int64 where
  "Second = 1000000000"

text \<open>The loop over the host list at the start of \<open>linkUp\<close>.\<close>

fun detect :: "Interface \<Rightarrow> Host list \<Rightarrow> bool \<times> bool \<times> Server \<Rightarrow> bool \<times> bool \<times> Server" where
  "detect ifi [] acc = acc"
| "detect ifi (host # hs) (v4, v6, s) =
     (if \<not> v4 \<and> hFamily host = AF_INET
      then detect ifi hs (True, v6,
             emit (Debugf ''linkUp: enabling IPv4 support for interface %q'' [AStr (Name ifi)]) s)
      else if \<not> v6 \<and> hFamily host = AF_INET6
      then detect ifi hs (v4, True,
             emit (Debugf ''linkUp: enabling IPv6 support for interface %q'' [AStr (Name ifi)]) s)
      else detect ifi hs (v4, v6, s))"

text \<open>
  \<open>linkUp\<close> up to the start of the goroutine's loop: both tickers are created with a
  period of \<open>backoff * time.Second\<close> and the ticker of a family without hosts is stopped.
  The interface is only read.
\<close>

definition linkUp :: "Interface \<Rightarrow> Server \<Rightarrow> discovery \<times> Server" where
  "linkUp ifi s =
     (let s0 = emit (Debugf ''linkUp event: %q (%p)'' [AStr (Name ifi), AIfi ifi]) s;
          (v4, v6, s1) = detect ifi (Hosts ifi) (False, False, s0);
          b4 = 1; b6 = 1
      in (\<lparr>hasipv4 = v4, hasipv6 = v6, backoff4 = b4, backoff6 = b6,
           timer4 = (if v4 then Some (b4 * Second) else None),
           timer6 = (if v6 then Some (b6 * Second) else None)\<rparr>, s1))"

text \<open>
  The loop over the hosts once a source address is found: the rule (when the interface
  has a table) and the prober for every host of the family.  The source writes this loop
  twice, with \<open>AF_INET\<close> and 32 in the IPv4 case and \<open>AF_INET6\<close> and 128 in the IPv6 case.
\<close>

fun install :: "uint8 \<Rightarrow> nat \<Rightarrow> Interface \<Rightarrow> IP \<Rightarrow> Host list \<Rightarrow> Server \<Rightarrow> Server outcome" where
  "install family bits ifi src [] s = Returns s"
| "install family bits ifi src (host # hs) s =
     (if hFamily host = family
      then
        (case (if Table ifi \<noteq> 0
               then (let from = hostCIDR src bits; to = hostCIDR (hHost host) bits
                     in case ruleAdd from to (Table ifi) 1 family s of
                          Panics m \<Rightarrow> Panics m
                        | Returns (Some err, s1) \<Rightarrow>
                            Returns (emit (Printf ''linkUp: could not add route rule %q: %q-> (%q)''
                                       [AStr (Name ifi), ANet from, ANet to, AErr err]) s1)
                        | Returns (None, s1) \<Rightarrow> Returns s1)
               else Returns s) of
           Panics m \<Rightarrow> Panics m
         | Returns s2 \<Rightarrow>
             (case addICMPMonitor ifi src host s2 of
                (Some err, s3) \<Rightarrow>
                  install family bits ifi src hs
                    (emit (Printf ''linkUp: could not start icmp monitor %q: %q -> %d (%q)''
                       [AStr (Name ifi), AIP src, AStr (hName host), AErr err]) s3)
              | (None, s3) \<Rightarrow> install family bits ifi src hs s3))
      else install family bits ifi src hs s)"

text \<open>
  The two ticker cases of the loop.  \<open>found\<close> is what \<open>findLocalAddressv4\<close> resp.
  \<open>findLocalAddressv6\<close> returns at this tick (\<open>None\<close> for the empty string).
  \<open>backoff.Seconds() < 32\<close> holds exactly when the duration is below 32000000000
  nanoseconds, \<open>Ticker.Reset\<close> panics on a non-positive period, and
  \<open>failGatewaysFor\<close>, which is not among the sources, is the parameter \<open>fgf\<close>.
\<close>

type_synonym gateways_fn = "Interface \<Rightarrow> uint8 \<Rightarrow> Server \<Rightarrow> Interface \<times> Server"

definition tick4 :: "gateways_fn \<Rightarrow> Interface \<Rightarrow> IP option \<Rightarrow> discovery \<Rightarrow> Server
    \<Rightarrow> (discovery \<times> Interface \<times> Server) outcome" where
  "tick4 fgf ifi found d s =
     (let b = (if sint (backoff4 d) < 32 * 1000000000 then 2 * backoff4 d else backoff4 d);
          period = b * Second
      in if sint period \<le> 0 then Panics ''non-positive interval for Ticker.Reset''
         else
           (let d1 = d\<lparr>backoff4 := b, timer4 := Some period\<rparr>;
                s1 = emit (Debugf ''linkUp: trying to find an ipv4 address on interface %q''
                       [AStr (Name ifi)]) s
            in case found of
                 None \<Rightarrow> Returns (d1, ifi, s1)
               | Some src \<Rightarrow>
                   (let s2 = emit (Printf ''linkUp: using IPv4 source %q for interface %q''
                               [AIP src, AStr (Name ifi)]) s1;
                        d2 = d1\<lparr>timer4 := None\<rparr>
                    in if hasipv4 d2
                       then (case install AF_INET 32 ifi src (Hosts ifi) s2 of
                               Panics m \<Rightarrow> Panics m
                             | Returns s3 \<Rightarrow>
                                 (let (ifi1, s4) = fgf ifi AF_INET s3 in Returns (d2, ifi1, s4)))
                       else Returns (d2, ifi, s2))))"

definition tick6 :: "gateways_fn \<Rightarrow> Interface \<Rightarrow> IP option \<Rightarrow> discovery \<Rightarrow> Server
    \<Rightarrow> (discovery \<times> Interface \<times> Server) outcome" where
  "tick6 fgf ifi found d s =
     (let b = (if sint (backoff6 d) < 30 * 1000000000 then 2 * backoff6 d else backoff6 d);
          period = b * Second
      in if sint period \<le> 0 then Panics ''non-positive interval for Ticker.Reset''
         else
           (let d1 = d\<lparr>backoff6 := b, timer6 := Some period\<rparr>;
                s1 = emit (Debugf ''linkUp: trying to find an ipv6 address on interface %q''
                       [AStr (Name ifi)]) s
            in case found of
                 None \<Rightarrow> Returns (d1, ifi, s1)
               | Some src \<Rightarrow>
                   (let s2 = emit (Printf ''linkUp: using IPv6 source %q for interface %q''
                               [AIP src, AStr (Name ifi)]) s1;
                        d2 = d1\<lparr>timer6 := None\<rparr>
                    in if hasipv4 d2
                       then (case install AF_INET6 128 ifi src (Hosts ifi) s2 of
                               Panics m \<Rightarrow> Panics m
                             | Returns s3 \<Rightarrow>
                                 (let (ifi1, s4) = fgf ifi AF_INET6 s3 in Returns (d2, ifi1, s4)))
                       else Returns (d2, ifi, s2))))"

text \<open>
  The \<open>select\<close> loop on a sequence of events.  A stopped ticker delivers no tick, so a
  tick of a stopped ticker is skipped; \<open>Shutdown\<close> ends the goroutine.
\<close>

datatype event = Timer4 "IP option" | Timer6 "IP option" | Shutdown

fun discover :: "gateways_fn \<Rightarrow> event list \<Rightarrow> discovery \<times> Interface \<times> Server
    \<Rightarrow> (discovery \<times> Interface \<times> Server) outcome" where
  "discover fgf [] st = Returns st"
| "discover fgf (Shutdown # es) st = Returns st"
| "discover fgf (Timer4 found # es) (d, ifi, s) =
     (if timer4 d = None then discover fgf es (d, ifi, s)
      else (case tick4 fgf ifi found d s of
              Panics m \<Rightarrow> Panics m
            | Returns st \<Rightarrow> discover fgf es st))"
| "discover fgf (Timer6 found # es) (d, ifi, s) =
     (if timer6 d = None then discover fgf es (d, ifi, s)
      else (case tick6 fgf ifi found d s of
              Panics m \<Rightarrow> Panics m
            | Returns st \<Rightarrow> discover fgf es st))"

section \<open>ICMP prober (package icmp)\<close>

text \<open>
  One burst of \<open>(*Monitor).run\<close>.  \<open>pinger.Run\<close> either fails or finishes with
  statistics; \<open>cancelled\<close> says whether the monitor's context is done when the burst
  returns.  The result is the returned error and the callbacks invoked, in order.
  \<open>PacketLoss\<close> is a float64 percentage, read as a real number.
\<close>

record Statistics =
  PacketsSent :: int
  PacketsRecv :: int
  PacketLoss :: real

datatype callback = downFunc | upFunc

definition Monitor_run :: "error + Statistics \<Rightarrow> bool \<Rightarrow> error option \<times> callback list" where
  "Monitor_run finished cancelled =
     (case finished of
        Inl err \<Rightarrow> (Some err, [])
      | Inr stats \<Rightarrow>
          (let is_open = \<not> cancelled
           in if is_open
              then (if PacketLoss stats > 75 then (None, [downFunc]) else (None, [upFunc]))
              else (None, [])))"

text \<open>
  The pinger library's statistics for \<open>sent\<close> packets of which \<open>recv\<close> were answered:
  \<open>PacketLoss = float64(sent - recv) / float64(sent) * 100\<close>.
\<close>

definition burst_stats :: "int \<Rightarrow> int \<Rightarrow> Statistics" where
  "burst_stats sent recv = \<lparr>PacketsSent = sent, PacketsRecv = recv,
     PacketLoss = real_of_int (sent - recv) / real_of_int sent * 100\<rparr>"

section \<open>Configuration parsing (package config)\<close>

text \<open>
  The decoded TOML file: \<open>cfgFile\<close>, \<open>cfgInterface\<close> and \<open>cfgHost\<close>; a nil pointer is
  \<open>None\<close>.  Go's \<open>int\<close> values are only compared here, so they are \<open>int\<close>.
\<close>

record cfgHost =
  chName :: string
  chHost :: string
  chDebug :: bool
  chBurstInterval :: "string option"
  chBurstSize :: "int option"
  chICMPInterval :: "string option"
  chICMPTimeout :: "string option"

record cfgInterface =
  ciName :: string
  ciDescription :: string
  ciDebug :: bool
  ciTable :: "int option"
  ciMetric :: "int option"
  ciUpAction :: "string option"
  ciDownAction :: "string option"
  ciBurstInterval :: "string option"
  ciBurstSize :: "int option"
  ciICMPInterval :: "string option"
  ciICMPTimeout :: "string option"
  ciMinimumUp :: "int option"
  ciHosts :: "cfgHost list"

record cfgFile =
  fDebug :: bool
  fBurstInterval :: "string option"
  fBurstSize :: "int option"
  fICMPInterval :: "string option"
  fICMPTimeout :: "string option"
  fUpAction :: string
  fDownAction :: string
  fInterfaces :: "cfgInterface list"

text \<open>\<open>type Config struct\<close>.\<close>

record Config =
  gDebug :: bool
  gBurstInterval :: int
  gBurstSize :: int
  gICMPInterval :: int
  gICMPTimeout :: int
  gUpAction :: string
  gDownAction :: string
  gInterfaces :: "Interface list"

text \<open>
  The library functions the parser calls: \<open>time.ParseDuration\<close>, \<open>net.ParseIP\<close> (nil is
  \<open>None\<close>) and \<open>net.IP.String\<close>.
\<close>

record stdlib =
  ParseDuration :: "string \<Rightarrow> error + int"
  ParseIP :: "string \<Rightarrow> IP option"
  IPString :: "IP \<Rightarrow> string"

definition DEF_MINIMUMUP :: int where
  "DEF_MINIMUMUP = 1"

definition BURSTSIZE_MIN :: int where
  "BURSTSIZE_MIN = 1"

definition BURSTSIZE_MAX :: int where
  "BURSTSIZE_MAX = 5"

definition TABLE_MAX :: int where
  "TABLE_MAX = 4294967295"

definition DEF_BURSTSIZE :: int where
  "DEF_BURSTSIZE = 3"

definition DEF_BURSTINTERVAL :: int where
  "DEF_BURSTINTERVAL = 15 * 1000000000"

definition DEF_ICMPINTERVAL :: int where
  "DEF_ICMPINTERVAL = 2 * 1000000000"

definition DEF_ICMPTIMEOUT :: int where
  "DEF_ICMPTIMEOUT = 250 * 1000000"

definition parseDuration :: "stdlib \<Rightarrow> string option \<Rightarrow> int \<Rightarrow> error + int" where
  "parseDuration lib s def = (case s of None \<Rightarrow> Inr def | Some v \<Rightarrow> ParseDuration lib v)"

text \<open>The burst-size check that \<open>Parse\<close>, \<open>parseInterface\<close> and \<open>parseHost\<close> each make.\<close>

definition parseBurstSize :: "int option \<Rightarrow> int \<Rightarrow> error + int" where
  "parseBurstSize b def =
     (case b of
        None \<Rightarrow> Inr def
      | Some n \<Rightarrow>
          (if n < BURSTSIZE_MIN \<or> n > BURSTSIZE_MAX
           then Inl (Err ''burst_size is incorrect: %d, should be between %d and %d'')
           else Inr n))"

definition parseHost :: "stdlib \<Rightarrow> cfgHost \<Rightarrow> Interface \<Rightarrow> error + Host" where
  "parseHost lib cfg parent =
     (case ParseIP lib (chHost cfg) of
        None \<Rightarrow> Inl (Err ''host ip address could not be parsed: %q, %q'')
      | Some ip \<Rightarrow>
          (case parseBurstSize (chBurstSize cfg) (BurstSize parent) of
             Inl e \<Rightarrow> Inl e
           | Inr bs \<Rightarrow>
               (case parseDuration lib (chBurstInterval cfg) (BurstInterval parent) of
                  Inl e \<Rightarrow> Inl e
                | Inr bi \<Rightarrow>
                    (case parseDuration lib (chICMPInterval cfg) (ICMPInterval parent) of
                       Inl e \<Rightarrow> Inl e
                     | Inr ii \<Rightarrow>
                         (case parseDuration lib (chICMPTimeout cfg) (ICMPTimeout parent) of
                            Inl e \<Rightarrow> Inl e
                          | Inr it \<Rightarrow>
                              Inr \<lparr>hName = (if chName cfg \<noteq> [] then chName cfg else IPString lib ip),
                                   hHost = ip, hDebug = chDebug cfg,
                                   hFamily = (if To4 ip = None then AF_INET6 else AF_INET),
                                   hBurstInterval = bi, hBurstSize = bs,
                                   hICMPInterval = ii, hICMPTimeout = it\<rparr>)))))"

text \<open>
  The loop over \<open>cfg.Hosts\<close> in \<open>parseInterface\<close>; \<open>seen\<close> holds the keys of the map
  of the same name.
\<close>

fun parseHosts :: "stdlib \<Rightarrow> cfgHost list \<Rightarrow> string list \<Rightarrow> Interface \<Rightarrow> error + Interface" where
  "parseHosts lib [] seen ifi = Inr ifi"
| "parseHosts lib (h # hs) seen ifi =
     (case parseHost lib h ifi of
        Inl e \<Rightarrow> Inl (Wrap ''host %d: %v'' e)
      | Inr host \<Rightarrow>
          (if IPString lib (hHost host) \<in> set seen
           then Inl (Err ''host %d: %q cannot appear multiple times for interface %q'')
           else parseHosts lib hs (IPString lib (hHost host) # seen)
                  (ifi\<lparr>Hosts := Hosts ifi @ [host],
                       totalHostsv4 := (if hFamily host = AF_INET then totalHostsv4 ifi + 1
                                        else totalHostsv4 ifi),
                       totalHostsv6 := (if hFamily host = AF_INET6 then totalHostsv6 ifi + 1
                                        else totalHostsv6 ifi)\<rparr>)))"

text \<open>
  The checks of \<open>table\<close>, \<open>metric\<close> and \<open>minimum_up\<close> at the start of
  \<open>parseInterface\<close>, each with the value it leaves in the interface.
\<close>

definition parseTable :: "int option \<Rightarrow> error + uint32" where
  "parseTable t =
     (case t of
        None \<Rightarrow> Inr 0
      | Some n \<Rightarrow>
          (if n < 1 \<or> n > TABLE_MAX
           then Inl (Err ''table is incorrect: %d, should be between %d and %d'')
           else if n = RT_TABLE_LOCAL \<or> n = RT_TABLE_MAIN
           then Inl (Err ''table is invalid: %d, reserved table'')
           else Inr (word_of_int n)))"

definition parseMetric :: "int option \<Rightarrow> uint32 \<Rightarrow> error + uint32" where
  "parseMetric m table =
     (case m of
        None \<Rightarrow> Inr 0
      | Some n \<Rightarrow>
          (if n < 1 \<or> n > 32764
           then Inl (Err ''metric is incorrect: %d, should be between %d and %d'')
           else if table = 0
           then Inl (Err ''table is incorrect: must be set to non-zero for metric to work'')
           else Inr (word_of_int n)))"

definition parseMinimumUp :: "int option \<Rightarrow> cfgHost list \<Rightarrow> error + int" where
  "parseMinimumUp m hosts =
     (case m of
        None \<Rightarrow> Inr DEF_MINIMUMUP
      | Some n \<Rightarrow>
          (if n > int (length hosts) \<or> n < 1
           then Inl (Err ''minimum_up is incorrect: %d, should be between %d and %d'')
           else Inr n))"

definition parseInterface :: "stdlib \<Rightarrow> cfgInterface \<Rightarrow> Config \<Rightarrow> error + Interface" where
  "parseInterface lib cfg parent =
     (case parseTable (ciTable cfg) of
        Inl e \<Rightarrow> Inl e
      | Inr table \<Rightarrow>
     (case parseMetric (ciMetric cfg) table of
        Inl e \<Rightarrow> Inl e
      | Inr metric \<Rightarrow>
     (case parseMinimumUp (ciMinimumUp cfg) (ciHosts cfg) of
        Inl e \<Rightarrow> Inl e
      | Inr minimumUp \<Rightarrow>
     (case parseBurstSize (ciBurstSize cfg) (gBurstSize parent) of
        Inl e \<Rightarrow> Inl e
      | Inr bs \<Rightarrow>
     (case parseDuration lib (ciBurstInterval cfg) (gBurstInterval parent) of
        Inl e \<Rightarrow> Inl e
      | Inr bi \<Rightarrow>
     (case parseDuration lib (ciICMPInterval cfg) (gICMPInterval parent) of
        Inl e \<Rightarrow> Inl e
      | Inr ii \<Rightarrow>
     (case parseDuration lib (ciICMPTimeout cfg) (gICMPTimeout parent) of
        Inl e \<Rightarrow> Inl e
      | Inr it \<Rightarrow>
          parseHosts lib (ciHosts cfg) []
            \<lparr>Name = ciName cfg, Description = ciDescription cfg, Debug = ciDebug cfg,
             Table = table, Metric = metric,
             UpAction = (case ciUpAction cfg of Some a \<Rightarrow> a | None \<Rightarrow> gUpAction parent),
             DownAction = (case ciDownAction cfg of Some a \<Rightarrow> a | None \<Rightarrow> gDownAction parent),
             BurstInterval = bi, BurstSize = bs, ICMPInterval = ii, ICMPTimeout = it,
             MinimumUp = minimumUp,
             upHostsv4 = 0, upHostsv6 = 0, totalHostsv4 = 0, totalHostsv6 = 0,
             Hosts = []\<rparr>)))))))"

text \<open>The loop over \<open>cfg.Interfaces\<close> in \<open>Parse\<close>.\<close>

fun parseInterfaces :: "stdlib \<Rightarrow> cfgInterface list \<Rightarrow> string list \<Rightarrow> Config \<Rightarrow> error + Config" where
  "parseInterfaces lib [] seen c = Inr c"
| "parseInterfaces lib (iface # rest) seen c =
     (case parseInterface lib iface c of
        Inl e \<Rightarrow> Inl (Wrap ''interface %d: %v'' e)
      | Inr ifi \<Rightarrow>
          (if Name ifi \<in> set seen
           then Inl (Err ''interface %d: %q cannot appear multiple times in configuration'')
           else parseInterfaces lib rest (Name ifi # seen)
                  (c\<lparr>gInterfaces := gInterfaces c @ [ifi]\<rparr>)))"

text \<open>
  \<open>Parse\<close>, from the result of the strict TOML decoding on: either the decoder's error
  or the decoded file.
\<close>

definition Parse :: "stdlib \<Rightarrow> error + cfgFile \<Rightarrow> error + Config" where
  "Parse lib decoded =
     (case decoded of
        Inl err \<Rightarrow> Inl err
      | Inr cfg \<Rightarrow>
          (if length (fInterfaces cfg) = 0 then Inl (Err ''no interfaces configured'')
           else
     (case parseBurstSize (fBurstSize cfg) DEF_BURSTSIZE of
        Inl e \<Rightarrow> Inl e
      | Inr bs \<Rightarrow>
     (case parseDuration lib (fBurstInterval cfg) DEF_BURSTINTERVAL of
        Inl e \<Rightarrow> Inl e
      | Inr bi \<Rightarrow>
     (case parseDuration lib (fICMPInterval cfg) DEF_ICMPINTERVAL of
        Inl e \<Rightarrow> Inl e
      | Inr ii \<Rightarrow>
     (case parseDuration lib (fICMPTimeout cfg) DEF_ICMPTIMEOUT of
        Inl e \<Rightarrow> Inl e
      | Inr it \<Rightarrow>
          parseInterfaces lib (fInterfaces cfg) []
            \<lparr>gDebug = fDebug cfg, gBurstInterval = bi, gBurstSize = bs,
             gICMPInterval = ii, gICMPTimeout = it,
             gUpAction = fUpAction cfg, gDownAction = fDownAction cfg,
             gInterfaces = []\<rparr>))))))"

text \<open>
  The configurations the specification wants rejected.  A host's key is the printed form
  of its parsed address; two hosts that do not parse share the key \<open>None\<close>.
\<close>

definition burst_out_of_range :: "int option \<Rightarrow> bool" where
  "burst_out_of_range b = (case b of None \<Rightarrow> False | Some n \<Rightarrow> n < 1 \<or> 5 < n)"

definition host_key :: "stdlib \<Rightarrow> cfgHost \<Rightarrow> string option" where
  "host_key lib h = map_option (IPString lib) (ParseIP lib (chHost h))"

definition invalid_interface :: "stdlib \<Rightarrow> cfgInterface \<Rightarrow> bool" where
  "invalid_interface lib ifc \<longleftrightarrow>
     \<not> distinct (map (host_key lib) (ciHosts ifc))
     \<or> ciTable ifc = Some RT_TABLE_LOCAL \<or> ciTable ifc = Some RT_TABLE_MAIN
     \<or> burst_out_of_range (ciBurstSize ifc)
     \<or> list_ex (\<lambda>h. burst_out_of_range (chBurstSize h)) (ciHosts ifc)
     \<or> (case ciMinimumUp ifc of None \<Rightarrow> False
         | Some m \<Rightarrow> m > int (length (ciHosts ifc)) \<or> m < 1)
     \<or> (ciMetric ifc \<noteq> None \<and> ciTable ifc = None)"

definition invalid_config :: "stdlib \<Rightarrow> cfgFile \<Rightarrow> bool" where
  "invalid_config lib cfg \<longleftrightarrow>
     \<not> distinct (map ciName (fInterfaces cfg))
     \<or> burst_out_of_range (fBurstSize cfg)
     \<or> list_ex (invalid_interface lib) (fInterfaces cfg)"

text \<open>
  A route table in which no two routes have the same identity, as the kernel keeps it,
  and the events of the address search at which no address is found.
\<close>

fun distinct_keys :: "RouteMessage list \<Rightarrow> bool" where
  "distinct_keys [] = True"
| "distinct_keys (r # rs) = (\<not> list_ex (\<lambda>x. same_route x r) rs \<and> distinct_keys rs)"

fun no_address :: "event \<Rightarrow> bool" where
  "no_address (Timer4 found) = (found = None)"
| "no_address (Timer6 found) = (found = None)"
| "no_address Shutdown = True"

section \<open>Example inputs\<close>

text \<open>
  A world with no routes and no rules, where \<open>eth0\<close> has index 2 and every command
  succeeds silently; a default route through \<open>eth0\<close> in table 2; an interface whose only
  host is an IPv6 host; a global-unicast IPv6 source address.
\<close>

definition world0 :: Server where
  "world0 = \<lparr>routes = [], tables = [], rules = [], listErr = None,
     InterfaceByName = (\<lambda>n. if n = ''eth0'' then Some 2 else None),
     CombinedOutput = (\<lambda>c. ([], None)), trace = []\<rparr>"

definition via_eth0 :: RouteMessage where
  "via_eth0 = \<lparr>rFamily = AF_INET, rDstLength = 0, rTable = 2, rFlags = 0, aDst = None,
     aGateway = Some [192, 0, 2, 1], aOutIface = 2, aPriority = 100, aTable = 2\<rparr>"

definition v6_only :: Interface where
  "v6_only = \<lparr>Name = ''eth0'', Description = '''', Debug = False, Table = 2, Metric = 1000,
     UpAction = '''', DownAction = '''', BurstInterval = 15000000000, BurstSize = 3,
     ICMPInterval = 2000000000, ICMPTimeout = 250000000, MinimumUp = 1,
     upHostsv4 = 0, upHostsv6 = 0, totalHostsv4 = 0, totalHostsv6 = 1,
     Hosts = [
       \<lparr>hName = ''Cloudflare6'',
         hHost = [0x26, 0x06, 0x47, 0x00, 0x47, 0x00, 0, 0, 0, 0, 0, 0, 0, 0, 0x11, 0x11],
         hDebug = False, hFamily = AF_INET6,
         hBurstInterval = 15000000000, hBurstSize = 3, hICMPInterval = 2000000000,
         hICMPTimeout = 250000000\<rparr>]\<rparr>"

definition src6 :: IP where
  "src6 = [0x20, 0x01, 0x0d, 0xb8, 0, 0, 0, 0, 0, 0, 0, 0, 0, 0, 0, 2]"

text \<open>
  Library functions that know two addresses and one duration, and two decoded files: one
  interface with two hosts, and the same interface listed twice.
\<close>

definition lib0 :: stdlib where
  "lib0 = \<lparr>ParseDuration = (\<lambda>s. if s = ''1s'' then Inr 1000000000
                                else Inl (Err ''time: invalid duration'')),
            ParseIP = (\<lambda>s. if s = ''1.1.1.1'' then Some [0, 0, 0, 0, 0, 0, 0, 0, 0, 0, 255, 255, 1, 1, 1, 1]
                          else if s = ''8.8.8.8'' then Some [0, 0, 0, 0, 0, 0, 0, 0, 0, 0, 255, 255, 8, 8, 8, 8]
                          else None),
            IPString = (\<lambda>ip. if ip = [0, 0, 0, 0, 0, 0, 0, 0, 0, 0, 255, 255, 1, 1, 1, 1] then ''1.1.1.1''
                            else if ip = [0, 0, 0, 0, 0, 0, 0, 0, 0, 0, 255, 255, 8, 8, 8, 8] then ''8.8.8.8''
                            else ''?'')\<rparr>"

definition eth0_cfg :: cfgInterface where
  "eth0_cfg = \<lparr>ciName = ''eth0'', ciDescription = '''', ciDebug = False,
     ciTable = Some 2, ciMetric = Some 1000, ciUpAction = None, ciDownAction = None,
     ciBurstInterval = None, ciBurstSize = None, ciICMPInterval = None, ciICMPTimeout = None,
     ciMinimumUp = Some 1,
     ciHosts = [
       \<lparr>chName = ''Cloudflare'', chHost = ''1.1.1.1'', chDebug = False, chBurstInterval = None,
         chBurstSize = None, chICMPInterval = None, chICMPTimeout = None\<rparr>,
       \<lparr>chName = ''Google'', chHost = ''8.8.8.8'', chDebug = False, chBurstInterval = None,
         chBurstSize = None, chICMPInterval = None, chICMPTimeout = None\<rparr>]\<rparr>"

definition good_file :: cfgFile where
  "good_file = \<lparr>fDebug = False, fBurstInterval = None, fBurstSize = None, fICMPInterval = None,
     fICMPTimeout = None, fUpAction = '''', fDownAction = '''', fInterfaces = [eth0_cfg]\<rparr>"

definition twice_file :: cfgFile where
  "twice_file = good_file\<lparr>fInterfaces := [eth0_cfg, eth0_cfg]\<rparr>"

text \<open>The default route through \<open>eth0\<close> as promoted to the main table with metric 1000.\<close>

definition main_via_eth0 :: RouteMessage where
  "main_via_eth0 = via_eth0\<lparr>rTable := 254, aTable := 254, aPriority := 1000\<rparr>"

section \<open>Counter bounds\<close>

text \<open>
  C2 (fails on the code): for any sequence of HostUp and HostDown calls the counter of
  each family stays within 0 and the family's total.  In \<open>hostDownv4\<close> the store that
  should clamp the IPv4 counter writes the IPv6 counter: after one IPv6 host came up, a
  HostDown for IPv4 on the fresh IPv4 counter leaves the IPv4 counter at \<open>-1\<close> and
  resets the IPv6 counter from 1 to 0.
\<close>

theorem hostDownv4_leaves_negative_counter:
  "sint (Up AF_INET (run_calls [CallHostUp AF_INET6, CallHostDown AF_INET] dual_stack)) = - 1
   \<and> Up AF_INET6 (run_calls [CallHostUp AF_INET6] dual_stack) = 1
   \<and> Up AF_INET6 (run_calls [CallHostUp AF_INET6, CallHostDown AF_INET] dual_stack) = 0"
  by (simp add: dual_stack_def HostUp_def HostDown_def hostUpv6_def hostDownv4_def
      Up_def Up4_def Up6_def AF_INET_def AF_INET6_def Let_def)

section \<open>Supporting lemmas\<close>

lemma trace_emit [simp]: "trace (emit e s) = trace s @ [e]"
  by (simp add: emit_def)

lemma world_emit [simp]:
  "routes (emit e s) = routes s"
  "listErr (emit e s) = listErr s"
  "InterfaceByName (emit e s) = InterfaceByName s"
  "CombinedOutput (emit e s) = CombinedOutput s"
  by (simp_all add: emit_def)

lemma Route_List_emit [simp]: "Route_List (emit e s) = Route_List s"
  by (simp add: Route_List_def split: option.splits)

lemma sint_plus_one:
  fixes x :: "32 word"
  assumes "sint x < 2147483647"
  shows "sint (x + 1) = sint x + 1"
proof -
  have "- (2 ^ 31) \<le> sint x" using sint_ge [of x] by simp
  with assms show ?thesis
    by (simp add: sint_word_ariths signed_take_bit_int_eq_self)
qed

lemma sint_minus_one:
  fixes x :: "32 word"
  assumes "- 2147483648 < sint x"
  shows "sint (x - 1) = sint x - 1"
proof -
  have "sint x < 2 ^ 31" using sint_lt [of x] by simp
  with assms show ?thesis
    by (simp add: sint_word_ariths signed_take_bit_int_eq_self)
qed

lemma int32_eq_iff:
  fixes x :: "32 word"
  assumes "- 2147483648 \<le> m" "m \<le> 2147483647"
  shows "x = word_of_int m \<longleftrightarrow> sint x = m"
proof
  assume "x = word_of_int m"
  with assms show "sint x = m"
    by (simp add: sint_sbintrunc' signed_take_bit_int_eq_self)
next
  assume "sint x = m"
  then have "word_of_int (sint x) = (word_of_int m :: 32 word)" by simp
  then show "x = word_of_int m" by simp
qed

lemma HostUp_counter:
  assumes "sint (Up F i) < 2147483647"
  shows "sint (Up F (snd (HostUp F i))) = min (sint (Up F i) + 1) (sint (Total F i))"
  using assms
  by (auto simp: HostUp_def hostUpv4_def hostUpv6_def Up_def Up4_def Up6_def Total_def Let_def
      sint_plus_one)

lemma HostUp_flag:
  assumes "sint (Up F i) < 2147483647" "1 \<le> MinimumUp i" "MinimumUp i \<le> 2147483647"
  shows "fst (HostUp F i) \<longleftrightarrow> sint (Up F i) + 1 = MinimumUp i"
  using assms
  by (auto simp: HostUp_def hostUpv4_def hostUpv6_def Up_def Up4_def Up6_def Let_def
      int32_eq_iff sint_plus_one)

lemma HostDown_flag:
  assumes "- 2147483648 < sint (Up F i)" "1 \<le> MinimumUp i" "MinimumUp i \<le> 2147483647"
  shows "fst (HostDown F i) \<longleftrightarrow> sint (Up F i) - 1 = MinimumUp i - 1"
  using assms
  by (auto simp: HostDown_def hostDownv4_def hostDownv6_def Up_def Up4_def Up6_def Let_def
      int32_eq_iff sint_minus_one)

lemma HostDown_counter_v6:
  assumes "- 2147483648 < sint (Up F i)" "F \<noteq> AF_INET"
  shows "sint (Up F (snd (HostDown F i))) = max (sint (Up F i) - 1) 0"
  using assms
  by (auto simp: HostDown_def hostDownv6_def Up_def Up4_def Up6_def Let_def sint_minus_one)

lemma trace_Route_Delete [simp]: "trace (snd (Route_Delete m s)) = trace s @ [RouteDelete m]"
  by (simp add: Route_Delete_def set_routes_def Let_def)

lemma trace_Route_Replace [simp]: "trace (snd (Route_Replace m s)) = trace s @ [RouteReplace m]"
  by (simp add: Route_Replace_def set_routes_def Let_def)

lemma foldl_delete_trace:
  "trace (foldl (\<lambda>s msg. if P msg then snd (Route_Delete msg s) else s) s msgs)
     = trace s @ map RouteDelete (filter P msgs)"
  by (induction msgs arbitrary: s) simp_all

lemma foldl_replace_trace:
  "trace (foldl (\<lambda>s msg. if P msg then snd (Route_Replace (h msg) s) else s) s msgs)
     = trace s @ map (\<lambda>msg. RouteReplace (h msg)) (filter P msgs)"
  by (induction msgs arbitrary: s) simp_all

lemma deleteGatewaysFor_trace:
  "trace (snd (deleteGatewaysFor ifi family s)) = trace s @ demotions ifi family s"
  by (simp add: deleteGatewaysFor_def demotions_def foldl_delete_trace
      split: option.splits sum.splits)

lemma addGatewaysFor_trace:
  "trace (snd (addGatewaysFor ifi family s)) = trace s @ promotions ifi family s"
  by (simp add: addGatewaysFor_def promotions_def foldl_replace_trace
      split: option.splits sum.splits)

lemma demotions_emit [simp]: "demotions ifi family (emit e s) = demotions ifi family s"
  by (simp add: demotions_def split: option.splits)

lemma promotions_emit [simp]: "promotions ifi family (emit e s) = promotions ifi family s"
  by (simp add: promotions_def split: option.splits)

text \<open>
  What Family-Down and Family-Up do to the outside, in order: the announcement, the hook
  (when the action is not empty) with its failure and its output logged, and then the
  gateway requests, whatever the hook returned.
\<close>

lemma familyDown_trace:
  "trace (familyDown ifi family s) =
     trace s @ [Printf ''nextHopFail: family %s, interface %q'' [AStr (fam family), AStr (Name ifi)]]
     @ (if DownAction ifi = [] then []
        else Exec (hookCmd (DownAction ifi) ''DOWN'' family ifi)
          # (case snd (CombinedOutput s (hookCmd (DownAction ifi) ''DOWN'' family ifi)) of
               Some e \<Rightarrow> [Printf ''nextHopFail: could not run down_action: %s'' [AErr e]]
             | None \<Rightarrow> [])
          @ (if fst (CombinedOutput s (hookCmd (DownAction ifi) ''DOWN'' family ifi)) = [] then []
             else [Printf ''>>> %q''
                     [AStr (fst (CombinedOutput s (hookCmd (DownAction ifi) ''DOWN'' family ifi)))]]))
     @ demotions ifi family s"
  by (simp add: familyDown_def execScript_def log_script_result_def Let_def
      deleteGatewaysFor_trace split: option.splits prod.splits)

lemma familyUp_trace:
  "trace (familyUp ifi family s) =
     trace s @ [Printf ''nextHopAvailable: family %s, interface %q'' [AStr (fam family), AStr (Name ifi)]]
     @ (if UpAction ifi = [] then []
        else Exec (hookCmd (UpAction ifi) ''UP'' family ifi)
          # (case snd (CombinedOutput s (hookCmd (UpAction ifi) ''UP'' family ifi)) of
               Some e \<Rightarrow> [Printf ''nextHopAvailable: could not run up_action: %s'' [AErr e]]
             | None \<Rightarrow> [])
          @ (if fst (CombinedOutput s (hookCmd (UpAction ifi) ''UP'' family ifi)) = [] then []
             else [Printf ''>>> %q''
                     [AStr (fst (CombinedOutput s (hookCmd (UpAction ifi) ''UP'' family ifi)))]]))
     @ promotions ifi family s"
  by (simp add: familyUp_def execScript_def log_script_result_def Let_def
      addGatewaysFor_trace split: option.splits prod.splits)

lemma HostUp_keeps:
  "Name (snd (HostUp F i)) = Name i" "MinimumUp (snd (HostUp F i)) = MinimumUp i"
  by (simp_all add: HostUp_def hostUpv4_def hostUpv6_def Let_def)

lemma HostDown_keeps:
  "Name (snd (HostDown F i)) = Name i" "MinimumUp (snd (HostDown F i)) = MinimumUp i"
  by (simp_all add: HostDown_def hostDownv4_def hostDownv6_def Let_def)

lemma HostDown_counter:
  assumes "- 2147483648 < sint (Up F i)"
  shows "sint (Up F (snd (HostDown F i)))
           = (if F = AF_INET then sint (Up F i) - 1 else max (sint (Up F i) - 1) 0)"
  using assms
  by (auto simp: HostDown_def hostDownv4_def hostDownv6_def Up_def Up4_def Up6_def Let_def
      sint_minus_one)

lemma HostUp_frame:
  "snd (HostUp F i) = (if F = AF_INET then i\<lparr>upHostsv4 := Up F (snd (HostUp F i))\<rparr>
                       else i\<lparr>upHostsv6 := Up F (snd (HostUp F i))\<rparr>)"
  by (simp add: HostUp_def hostUpv4_def hostUpv6_def Up_def Up4_def Up6_def Let_def)

lemma HostDown_frame:
  "(if F = AF_INET then (snd (HostDown F i))\<lparr>upHostsv6 := upHostsv6 i\<rparr>
    else snd (HostDown F i))
     = (if F = AF_INET then i\<lparr>upHostsv4 := Up F (snd (HostDown F i))\<rparr>
        else i\<lparr>upHostsv6 := Up F (snd (HostDown F i))\<rparr>)"
  by (simp add: HostDown_def hostDownv4_def hostDownv6_def Up_def Up4_def Up6_def Let_def)

section \<open>Transitions of the per-family counter\<close>

text \<open>
  C1, as the code has it: HostUp adds one to the family's counter and stores the family's
  total when the sum exceeds it, changing nothing else; HostDown subtracts one from the
  family's counter and, for IPv6, stores 0 when the difference is negative, changing
  nothing else (for IPv4 nothing else but, possibly, the IPv6 counter).  Family-Up runs
  exactly when the sum, before it is clamped, equals \<open>minimum_up\<close>, and Family-Down
  exactly when the difference, before it is clamped, equals \<open>minimum_up - 1\<close>; every
  other call only writes a log line.  (Counters away from the ends of the int32 range,
  \<open>minimum_up\<close> between 1 and the int32 maximum.)
\<close>

theorem host_transition_fires:
  assumes "- 2147483648 < sint (Up F i)" and "sint (Up F i) < 2147483647"
    and "1 \<le> MinimumUp i" and "MinimumUp i \<le> 2147483647"
  shows "sint (Up F (snd (HostUp F i))) = min (sint (Up F i) + 1) (sint (Total F i))
    \<and> snd (HostUp F i) = (if F = AF_INET then i\<lparr>upHostsv4 := Up F (snd (HostUp F i))\<rparr>
                          else i\<lparr>upHostsv6 := Up F (snd (HostUp F i))\<rparr>)
    \<and> (fst (HostUp F i) \<longleftrightarrow> sint (Up F i) + 1 = MinimumUp i)
    \<and> nextHopAvailable i F s =
        (snd (HostUp F i),
         let s1 = emit (Printf ''hostUp: family %s, interface %s, up %d/%d, at: %t''
                    [AStr (fam F), AStr (Name i), AInt (sint (Up F (snd (HostUp F i)))),
                     AInt (MinimumUp i), ABool (sint (Up F i) + 1 = MinimumUp i)]) s
         in if sint (Up F i) + 1 = MinimumUp i then familyUp (snd (HostUp F i)) F s1 else s1)
    \<and> sint (Up F (snd (HostDown F i)))
        = (if F = AF_INET then sint (Up F i) - 1 else max (sint (Up F i) - 1) 0)
    \<and> (if F = AF_INET then (snd (HostDown F i))\<lparr>upHostsv6 := upHostsv6 i\<rparr>
        else snd (HostDown F i))
        = (if F = AF_INET then i\<lparr>upHostsv4 := Up F (snd (HostDown F i))\<rparr>
           else i\<lparr>upHostsv6 := Up F (snd (HostDown F i))\<rparr>)
    \<and> (fst (HostDown F i) \<longleftrightarrow> sint (Up F i) - 1 = MinimumUp i - 1)
    \<and> nextHopFail i F False s =
        (snd (HostDown F i),
         let s1 = emit (Printf ''hostDown: family %s, interface %s, up %d/%d, below: %t''
                    [AStr (fam F), AStr (Name i), AInt (sint (Up F (snd (HostDown F i)))),
                     AInt (MinimumUp i), ABool (sint (Up F i) - 1 = MinimumUp i - 1)]) s
         in if sint (Up F i) - 1 = MinimumUp i - 1 then familyDown (snd (HostDown F i)) F s1 else s1)"
proof -
  have up: "fst (HostUp F i) \<longleftrightarrow> sint (Up F i) + 1 = MinimumUp i"
    using assms by (simp add: HostUp_flag)
  have down: "fst (HostDown F i) \<longleftrightarrow> sint (Up F i) - 1 = MinimumUp i - 1"
    using assms by (simp add: HostDown_flag)
  have a: "sint (Up F (snd (HostUp F i))) = min (sint (Up F i) + 1) (sint (Total F i))"
    using assms by (simp add: HostUp_counter)
  have b: "nextHopAvailable i F s =
        (snd (HostUp F i),
         let s1 = emit (Printf ''hostUp: family %s, interface %s, up %d/%d, at: %t''
                    [AStr (fam F), AStr (Name i), AInt (sint (Up F (snd (HostUp F i)))),
                     AInt (MinimumUp i), ABool (sint (Up F i) + 1 = MinimumUp i)]) s
         in if sint (Up F i) + 1 = MinimumUp i then familyUp (snd (HostUp F i)) F s1 else s1)"
    using up by (simp add: nextHopAvailable_def Let_def case_prod_beta HostUp_keeps)
  have c: "sint (Up F (snd (HostDown F i)))
        = (if F = AF_INET then sint (Up F i) - 1 else max (sint (Up F i) - 1) 0)"
    using assms(1) by (rule HostDown_counter)
  have d: "nextHopFail i F False s =
        (snd (HostDown F i),
         let s1 = emit (Printf ''hostDown: family %s, interface %s, up %d/%d, below: %t''
                    [AStr (fam F), AStr (Name i), AInt (sint (Up F (snd (HostDown F i)))),
                     AInt (MinimumUp i), ABool (sint (Up F i) - 1 = MinimumUp i - 1)]) s
         in if sint (Up F i) - 1 = MinimumUp i - 1 then familyDown (snd (HostDown F i)) F s1 else s1)"
    using down by (simp add: nextHopFail_def Let_def case_prod_beta HostDown_keeps)
  from a HostUp_frame [of F i] up b c HostDown_frame [of F i] down d show ?thesis
    by (intro conjI)
qed

theorem host_transition_fires_witness:
  "- 2147483648 < sint (Up AF_INET dual_stack) \<and> sint (Up AF_INET dual_stack) < 2147483647
   \<and> 1 \<le> MinimumUp dual_stack \<and> MinimumUp dual_stack \<le> 2147483647
   \<and> sint (Up AF_INET (snd (HostUp AF_INET dual_stack)))
       = min (sint (Up AF_INET dual_stack) + 1) (sint (Total AF_INET dual_stack))
   \<and> fst (HostUp AF_INET dual_stack)
   \<and> sint (Up AF_INET (snd (HostDown AF_INET (snd (HostUp AF_INET dual_stack))))) = 0"
proof -
  have h1: "- 2147483648 < sint (Up AF_INET dual_stack)"
    by (simp add: Up_def Up4_def dual_stack_def)
  have h2: "sint (Up AF_INET dual_stack) < 2147483647"
    by (simp add: Up_def Up4_def dual_stack_def)
  have h3: "1 \<le> MinimumUp dual_stack"
    by (simp add: dual_stack_def)
  have h4: "MinimumUp dual_stack \<le> 2147483647"
    by (simp add: dual_stack_def)
  have u: "sint (Up AF_INET dual_stack) = 0" "MinimumUp dual_stack = 1"
    "sint (Total AF_INET dual_stack) = 1"
    by (simp_all add: Up_def Up4_def Total_def dual_stack_def)
  let ?i1 = "snd (HostUp AF_INET dual_stack)"
  from host_transition_fires [OF h1 h2 h3 h4, of world0]
  have a: "sint (Up AF_INET ?i1) = min (sint (Up AF_INET dual_stack) + 1) (sint (Total AF_INET dual_stack))"
    and f: "fst (HostUp AF_INET dual_stack) \<longleftrightarrow> sint (Up AF_INET dual_stack) + 1 = MinimumUp dual_stack"
    by blast+
  from a u have v: "sint (Up AF_INET ?i1) = 1" by simp
  have m: "MinimumUp ?i1 = 1" using u by (simp add: HostUp_keeps)
  have g1: "- 2147483648 < sint (Up AF_INET ?i1)" using v by simp
  have g2: "sint (Up AF_INET ?i1) < 2147483647" using v by simp
  have g3: "1 \<le> MinimumUp ?i1" using m by simp
  have g4: "MinimumUp ?i1 \<le> 2147483647" using m by simp
  from host_transition_fires [OF g1 g2 g3 g4, of world0]
  have "sint (Up AF_INET (snd (HostDown AF_INET ?i1)))
        = (if AF_INET = AF_INET then sint (Up AF_INET ?i1) - 1 else max (sint (Up AF_INET ?i1) - 1) 0)"
    by blast
  with v have z: "sint (Up AF_INET (snd (HostDown AF_INET ?i1))) = 0" by simp
  show ?thesis
    using h1 h2 h3 h4 a f u z by simp
qed

text \<open>
  C1 as stated fails where the clamp acts.  A second HostUp for the only IPv4 host leaves
  the counter at the total 1, which is \<open>minimum_up\<close>, and runs no Family-Up; a HostDown
  for IPv6 on the counter 0 leaves it at 0, which is \<open>minimum_up - 1\<close>, and runs no
  Family-Down.
\<close>

theorem host_transition_counterexample:
  "sint (Up AF_INET (snd (HostUp AF_INET (snd (HostUp AF_INET dual_stack))))) = MinimumUp dual_stack
   \<and> \<not> fst (HostUp AF_INET (snd (HostUp AF_INET dual_stack)))
   \<and> sint (Up AF_INET6 (snd (HostDown AF_INET6 dual_stack))) = MinimumUp dual_stack - 1
   \<and> \<not> fst (HostDown AF_INET6 dual_stack)"
  by (simp add: dual_stack_def HostUp_def HostDown_def hostUpv4_def hostDownv6_def
      Up_def Up4_def Up6_def AF_INET_def AF_INET6_def Let_def)

section \<open>Link-up: installation for IPv6 hosts\<close>

lemma linkUp_v6_only:
  "linkUp v6_only world0 = (\<lparr>hasipv4 = False, hasipv6 = True, backoff4 = 1, backoff6 = 1,
     timer4 = None, timer6 = Some Second\<rparr>,
     world0\<lparr>trace := [Debugf ''linkUp event: %q (%p)'' [AStr ''eth0'', AIfi v6_only],
        Debugf ''linkUp: enabling IPv6 support for interface %q'' [AStr ''eth0'']]\<rparr>)"
  by (simp add: linkUp_def v6_only_def emit_def AF_INET_def AF_INET6_def world0_def)

text \<open>
  C3 (fails on the code): on an interface whose hosts are all IPv6, \<open>linkUp\<close> sets
  \<open>hasipv6\<close> only; when the IPv6 ticker finds a global-unicast source address, the
  branch is guarded by \<open>hasipv4\<close>, so no rule is added, no prober is started and
  \<open>failGatewaysFor\<close> is not called: the ticker is stopped and the only effects are the
  four log lines.  Whatever function \<open>fgf\<close> stands for \<open>failGatewaysFor\<close>, the
  result is the same, and the interface has table 2.
\<close>

theorem v6_only_installs_nothing:
  "(case linkUp v6_only world0 of
      (d, s) \<Rightarrow> discover fgf [Timer6 (Some src6)] (d, v6_only, s))
     = Returns (\<lparr>hasipv4 = False, hasipv6 = True, backoff4 = 1, backoff6 = 2,
                  timer4 = None, timer6 = None\<rparr>, v6_only,
                world0\<lparr>trace :=
                  [Debugf ''linkUp event: %q (%p)'' [AStr ''eth0'', AIfi v6_only],
                   Debugf ''linkUp: enabling IPv6 support for interface %q'' [AStr ''eth0''],
                   Debugf ''linkUp: trying to find an ipv6 address on interface %q'' [AStr ''eth0''],
                   Printf ''linkUp: using IPv6 source %q for interface %q'' [AIP src6, AStr ''eth0'']]\<rparr>)
   \<and> Table v6_only = 2 \<and> map hFamily (Hosts v6_only) = [AF_INET6]"
proof -
  have n: "Name v6_only = ''eth0''"
    by (simp add: v6_only_def)
  have t: "Table v6_only = 2 \<and> map hFamily (Hosts v6_only) = [AF_INET6]"
    by (simp add: v6_only_def)
  show ?thesis
    by (simp add: linkUp_v6_only tick6_def Second_def emit_def Let_def n t)
qed

section \<open>Link-up: the backoff of the address search\<close>

text \<open>
  C4 (fails on the code): the backoff starts at \<open>time.Duration(1)\<close>, one nanosecond, and
  the cap compares \<open>backoff.Seconds()\<close> with 32, so the doubling does not stop at 32: the
  ticker is reset to \<open>backoff * time.Second\<close>, and after six unsuccessful IPv4 (or IPv6)
  attempts its period is 64 seconds.
\<close>

theorem backoff_exceeds_cap:
  "(case discover fgf (replicate 6 (Timer4 None)) (fst (linkUp dual_stack world0), dual_stack, world0) of
      Panics m \<Rightarrow> None
    | Returns (d, ifi, s) \<Rightarrow> timer4 d) = Some (64 * Second)
   \<and> (case discover fgf (replicate 6 (Timer6 None)) (fst (linkUp dual_stack world0), dual_stack, world0) of
      Panics m \<Rightarrow> None
    | Returns (d, ifi, s) \<Rightarrow> timer6 d) = Some (64 * Second)
   \<and> sint (32 * Second) < sint (64 * Second)"
  apply (simp add: linkUp_def dual_stack_def emit_def AF_INET_def AF_INET6_def numeral_eq_Suc)
  apply (simp add: tick4_def tick6_def Second_def emit_def Let_def)
  done

section \<open>The prober's verdict\<close>

text \<open>
  C5: a burst that completes while the monitor is not cancelled invokes exactly one
  callback: the down callback when the packet loss is above 75 per cent, the up callback
  otherwise.  With 1 of 3 packets received the verdict is up, with 0 of 3 it is down.
  (A cancelled monitor delivers no verdict.)
\<close>

theorem prober_verdict_by_loss:
  "Monitor_run (Inr stats) False
     = (None, if PacketLoss stats > 75 then [downFunc] else [upFunc])
   \<and> Monitor_run (Inr stats) True = (None, [])
   \<and> Monitor_run (Inr (burst_stats 3 1)) False = (None, [upFunc])
   \<and> Monitor_run (Inr (burst_stats 3 0)) False = (None, [downFunc])"
  by (simp add: Monitor_run_def burst_stats_def)

section \<open>The kernel's routes after a demotion\<close>

lemma same_route_refl [simp]: "same_route r r"
  by (simp add: same_route_def)

lemma same_route_sym: "same_route a b \<Longrightarrow> same_route b a"
  by (simp add: same_route_def)

lemma same_route_trans: "same_route a b \<Longrightarrow> same_route b c \<Longrightarrow> same_route a c"
  by (simp add: same_route_def)

lemma distinct_keys_filter: "distinct_keys rs \<Longrightarrow> distinct_keys (filter Q rs)"
  by (induction rs) (auto simp: list_ex_iff)

lemma distinct_keys_unique:
  "distinct_keys rs \<Longrightarrow> a \<in> set rs \<Longrightarrow> b \<in> set rs \<Longrightarrow> same_route a b \<Longrightarrow> a = b"
  by (induction rs) (auto simp: list_ex_iff dest: same_route_sym)

lemma delete_first_filter:
  "distinct_keys rs \<Longrightarrow> delete_first m rs = filter (\<lambda>r. \<not> same_route r m) rs"
proof (induction rs)
  case Nil
  then show ?case by simp
next
  case (Cons r rs)
  show ?case
  proof (cases "same_route r m")
    case True
    have "\<forall>x \<in> set rs. \<not> same_route x m"
    proof
      fix x assume x: "x \<in> set rs"
      show "\<not> same_route x m"
      proof
        assume "same_route x m"
        with True have "same_route x r"
          by (blast intro: same_route_trans same_route_sym)
        with Cons.prems x show False by (auto simp: list_ex_iff)
      qed
    qed
    then have "filter (\<lambda>r. \<not> same_route r m) rs = rs"
      by (simp add: filter_id_conv)
    with True show ?thesis by simp
  next
    case False
    with Cons show ?thesis by simp
  qed
qed

text \<open>What the loop of \<open>deleteGatewaysFor\<close> leaves of the kernel's routes.\<close>

lemma Route_Delete_world [simp]:
  "listErr (snd (Route_Delete m s)) = listErr s"
  "InterfaceByName (snd (Route_Delete m s)) = InterfaceByName s"
  "CombinedOutput (snd (Route_Delete m s)) = CombinedOutput s"
  by (simp_all add: Route_Delete_def set_routes_def emit_def Let_def)

lemma Route_Delete_routes:
  "distinct_keys (routes s) \<Longrightarrow>
   routes (snd (Route_Delete m s)) = filter (\<lambda>r. \<not> same_route r m) (routes s)"
  by (auto simp: Route_Delete_def set_routes_def emit_def Let_def delete_first_filter
      list_ex_iff filter_id_conv)

lemma foldl_delete_world:
  "listErr (foldl (\<lambda>s msg. if P msg then snd (Route_Delete msg s) else s) s msgs) = listErr s
   \<and> InterfaceByName (foldl (\<lambda>s msg. if P msg then snd (Route_Delete msg s) else s) s msgs)
       = InterfaceByName s
   \<and> CombinedOutput (foldl (\<lambda>s msg. if P msg then snd (Route_Delete msg s) else s) s msgs)
       = CombinedOutput s"
  by (induction msgs arbitrary: s) simp_all

lemma foldl_delete_routes:
  "distinct_keys (routes s) \<Longrightarrow>
   routes (foldl (\<lambda>s msg. if P msg then snd (Route_Delete msg s) else s) s msgs)
     = filter (\<lambda>r. \<not> (\<exists>m \<in> set msgs. P m \<and> same_route r m)) (routes s)"
proof (induction msgs arbitrary: s)
  case Nil
  then show ?case by simp
next
  case (Cons m msgs)
  show ?case
  proof (cases "P m")
    case True
    have d: "distinct_keys (routes (snd (Route_Delete m s)))"
      using Cons.prems by (simp add: Route_Delete_routes distinct_keys_filter)
    show ?thesis
      using True Cons.IH [OF d] Cons.prems
      by (auto simp: Route_Delete_routes intro: filter_cong)
  next
    case False
    then show ?thesis
      using Cons.IH [OF Cons.prems] by (auto intro: filter_cong)
  qed
qed

lemma remove_own_gateways:
  assumes "distinct_keys rs"
  shows "filter (\<lambda>r. \<not> (\<exists>m \<in> set rs. P m \<and> same_route r m)) rs = filter (\<lambda>r. \<not> P r) rs"
proof (rule filter_cong)
  show "rs = rs" by simp
next
  fix r assume r: "r \<in> set rs"
  show "(\<not> (\<exists>m \<in> set rs. P m \<and> same_route r m)) = (\<not> P r)"
  proof -
    have "(\<exists>m \<in> set rs. P m \<and> same_route r m) \<longleftrightarrow> P r"
    proof
      assume "\<exists>m \<in> set rs. P m \<and> same_route r m"
      then obtain m where m: "m \<in> set rs" "P m" "same_route r m" by blast
      with assms r have "r = m" by (blast dest: distinct_keys_unique)
      with m show "P r" by simp
    next
      assume "P r"
      with r show "\<exists>m \<in> set rs. P m \<and> same_route r m" by auto
    qed
    then show ?thesis by simp
  qed
qed

lemma deleteGatewaysFor_routes:
  assumes "InterfaceByName s (Name ifi) = Some idx" and "listErr s = None"
    and "distinct_keys (routes s)"
  shows "routes (snd (deleteGatewaysFor ifi family s))
           = filter (\<lambda>r. \<not> is_gateway_of 254 family idx r) (routes s)"
proof -
  let ?P = "is_gateway_of 254 family idx"
  have "snd (deleteGatewaysFor ifi family s)
          = foldl (\<lambda>s msg. if ?P msg then snd (Route_Delete msg s) else s) s (routes s)"
    using assms(1,2) by (simp add: deleteGatewaysFor_def Route_List_def)
  then have "routes (snd (deleteGatewaysFor ifi family s))
          = filter (\<lambda>r. \<not> (\<exists>m \<in> set (routes s). ?P m \<and> same_route r m)) (routes s)"
    using foldl_delete_routes [OF assms(3), of ?P "routes s"] by (simp only:)
  also have "\<dots> = filter (\<lambda>r. \<not> ?P r) (routes s)"
    using assms(3) by (rule remove_own_gateways)
  finally show ?thesis .
qed

lemma deleteGatewaysFor_world:
  "listErr (snd (deleteGatewaysFor ifi family s)) = listErr s
   \<and> InterfaceByName (snd (deleteGatewaysFor ifi family s)) = InterfaceByName s
   \<and> CombinedOutput (snd (deleteGatewaysFor ifi family s)) = CombinedOutput s"
  by (simp add: deleteGatewaysFor_def foldl_delete_world split: option.splits sum.splits)

lemma execScript_world:
  "routes (snd (execScript ev family ifi s)) = routes s
   \<and> listErr (snd (execScript ev family ifi s)) = listErr s
   \<and> InterfaceByName (snd (execScript ev family ifi s)) = InterfaceByName s
   \<and> CombinedOutput (snd (execScript ev family ifi s)) = CombinedOutput s"
  by (simp add: execScript_def Let_def)

lemma log_script_result_world:
  "routes (log_script_result fmt r s) = routes s
   \<and> listErr (log_script_result fmt r s) = listErr s
   \<and> InterfaceByName (log_script_result fmt r s) = InterfaceByName s
   \<and> CombinedOutput (log_script_result fmt r s) = CombinedOutput s"
  by (simp add: log_script_result_def Let_def split: option.splits)

lemma familyDown_world:
  "listErr (familyDown ifi family s) = listErr s
   \<and> InterfaceByName (familyDown ifi family s) = InterfaceByName s
   \<and> CombinedOutput (familyDown ifi family s) = CombinedOutput s"
  by (simp add: familyDown_def Let_def case_prod_beta deleteGatewaysFor_world
      log_script_result_world execScript_world)

lemma familyDown_routes:
  assumes "InterfaceByName s (Name ifi) = Some idx" and "listErr s = None"
    and "distinct_keys (routes s)"
  shows "routes (familyDown ifi family s)
           = filter (\<lambda>r. \<not> is_gateway_of 254 family idx r) (routes s)"
  using assms
  by (simp add: familyDown_def Let_def case_prod_beta deleteGatewaysFor_routes
      log_script_result_world execScript_world)

lemma demotions_known:
  assumes "InterfaceByName s (Name ifi) = Some idx" and "listErr s = None"
  shows "demotions ifi family s = map RouteDelete (filter (is_gateway_of 254 family idx) (routes s))"
  using assms by (simp add: demotions_def Route_List_def)

lemma discover_no_address_keeps:
  "list_all no_address es \<Longrightarrow> discover fgf es (d, ifi, s) = Returns (d', ifi', s')
   \<Longrightarrow> ifi' = ifi"
proof (induction es arbitrary: d s)
  case Nil
  then show ?case by simp
next
  case (Cons e es)
  show ?case
  proof (cases e)
    case (Timer4 found)
    with Cons.prems have f: "found = None" by simp
    show ?thesis
    proof (cases "timer4 d = None")
      case True
      with Cons Timer4 show ?thesis by simp
    next
      case False
      with Cons.prems Timer4 f obtain d1 s1 where
        "tick4 fgf ifi None d s = Returns (d1, ifi, s1)"
        and "discover fgf es (d1, ifi, s1) = Returns (d', ifi', s')"
        by (auto simp: tick4_def Let_def split: if_splits outcome.splits)
      with Cons show ?thesis by simp
    qed
  next
    case (Timer6 found)
    with Cons.prems have f: "found = None" by simp
    show ?thesis
    proof (cases "timer6 d = None")
      case True
      with Cons Timer6 show ?thesis by simp
    next
      case False
      with Cons.prems Timer6 f obtain d1 s1 where
        "tick6 fgf ifi None d s = Returns (d1, ifi, s1)"
        and "discover fgf es (d1, ifi, s1) = Returns (d', ifi', s')"
        by (auto simp: tick6_def Let_def split: if_splits outcome.splits)
      with Cons show ?thesis by simp
    qed
  next
    case Shutdown
    with Cons.prems show ?thesis by simp
  qed
qed

lemma nextHopFailLink_unfold:
  "nextHopFailLink ifi s =
     (LinkDown ifi,
      familyDown (LinkDown ifi) AF_INET6
        (emit (Debugf ''linkDown: interface %v'' [AIfi (LinkDown ifi)])
          (familyDown (LinkDown ifi) AF_INET
            (emit (Debugf ''linkDown: interface %v'' [AIfi (LinkDown ifi)]) s))))"
proof -
  have idem: "LinkDown (LinkDown ifi) = LinkDown ifi"
    by (simp add: LinkDown_def)
  show ?thesis
    by (simp add: nextHopFailLink_def nextHopFail_def Let_def idem)
qed

lemma gateway_families_apart:
  "filter (is_gateway_of t AF_INET6 idx) (filter (\<lambda>r. \<not> is_gateway_of t AF_INET idx r) rs)
     = filter (is_gateway_of t AF_INET6 idx) rs"
  by (induction rs) (auto simp: is_gateway_of_def AF_INET_def AF_INET6_def)

lemma gateway_families_apart':
  "filter (\<lambda>r. \<not> is_gateway_of t AF_INET idx r \<and> is_gateway_of t AF_INET6 idx r) rs
     = filter (is_gateway_of t AF_INET6 idx) rs"
  by (induction rs) (auto simp: is_gateway_of_def AF_INET_def AF_INET6_def)

section \<open>Link-down\<close>

text \<open>
  C6: on link-down both counters are stored as 0 and the down pathway runs for IPv4 and
  then for IPv6, whatever the counters were: the result for any counters \<open>a\<close>, \<open>b\<close> is
  the result for the interface as it is.  For each family the pathway announces itself,
  runs the down hook (when the action is not empty) with \<open>EVENT=DOWN\<close>, logs its failure
  and its output, and sends a delete for every gateway route of the interface in the main
  table; where the interface resolves to an index, the listing succeeds and the kernel
  keeps one route per identity, the routes left are exactly those that are no such
  gateway route of either family.  \<open>linkUp\<close> and the address search that follows it
  leave the interface as link-down left it, so the next up cycle runs with both counters
  at 0 for as long as no address is found.
\<close>

theorem link_down_resets_and_demotes:
  "fst (nextHopFailLink ifi s) = ifi\<lparr>upHostsv4 := 0, upHostsv6 := 0\<rparr>
   \<and> nextHopFailLink (ifi\<lparr>upHostsv4 := a, upHostsv6 := b\<rparr>) s = nextHopFailLink ifi s
   \<and> (let down = ifi\<lparr>upHostsv4 := 0, upHostsv6 := 0\<rparr>;
           note = Debugf ''linkDown: interface %v'' [AIfi down];
           cmd4 = hookCmd (DownAction ifi) ''DOWN'' AF_INET down;
           cmd6 = hookCmd (DownAction ifi) ''DOWN'' AF_INET6 down;
           mid = familyDown down AF_INET (emit note s)
       in trace (snd (nextHopFailLink ifi s)) =
            trace s
            @ [note, Printf ''nextHopFail: family %s, interface %q'' [AStr ''IPv4'', AStr (Name ifi)]]
            @ (if DownAction ifi = [] then []
               else Exec cmd4
                 # (case snd (CombinedOutput s cmd4) of
                      Some e \<Rightarrow> [Printf ''nextHopFail: could not run down_action: %s'' [AErr e]]
                    | None \<Rightarrow> [])
                 @ (if fst (CombinedOutput s cmd4) = [] then []
                    else [Printf ''>>> %q'' [AStr (fst (CombinedOutput s cmd4))]]))
            @ demotions down AF_INET s
            @ [note, Printf ''nextHopFail: family %s, interface %q'' [AStr ''IPv6'', AStr (Name ifi)]]
            @ (if DownAction ifi = [] then []
               else Exec cmd6
                 # (case snd (CombinedOutput s cmd6) of
                      Some e \<Rightarrow> [Printf ''nextHopFail: could not run down_action: %s'' [AErr e]]
                    | None \<Rightarrow> [])
                 @ (if fst (CombinedOutput s cmd6) = [] then []
                    else [Printf ''>>> %q'' [AStr (fst (CombinedOutput s cmd6))]]))
            @ demotions down AF_INET6 mid
          \<and> (InterfaceByName s (Name ifi) = Some idx \<and> listErr s = None \<and> distinct_keys (routes s)
               \<longrightarrow> demotions down AF_INET s
                     = map RouteDelete (filter (is_gateway_of 254 AF_INET idx) (routes s))
                 \<and> demotions down AF_INET6 mid
                     = map RouteDelete (filter (is_gateway_of 254 AF_INET6 idx) (routes s))
                 \<and> routes (snd (nextHopFailLink ifi s))
                     = filter (\<lambda>r. \<not> is_gateway_of 254 AF_INET idx r
                                    \<and> \<not> is_gateway_of 254 AF_INET6 idx r) (routes s)))
   \<and> (list_all no_address es \<longrightarrow>
        (case linkUp (fst (nextHopFailLink ifi s)) (snd (nextHopFailLink ifi s)) of
           (d, s2) \<Rightarrow>
             (case discover fgf es (d, fst (nextHopFailLink ifi s), s2) of
                Panics m \<Rightarrow> True
              | Returns (d', ifi', s') \<Rightarrow>
                  ifi' = ifi\<lparr>upHostsv4 := 0, upHostsv6 := 0\<rparr> \<and> Up F ifi' = 0)))"
proof -
  let ?down = "ifi\<lparr>upHostsv4 := 0, upHostsv6 := 0\<rparr>"
  let ?note = "Debugf ''linkDown: interface %v'' [AIfi ?down]"
  let ?mid = "familyDown ?down AF_INET (emit ?note s)"
  have ld: "LinkDown ifi = ?down"
    by (simp add: LinkDown_def)
  have unf: "nextHopFailLink ifi s = (?down, familyDown ?down AF_INET6 (emit ?note ?mid))"
    using nextHopFailLink_unfold [of ifi s] by (simp add: ld)
  have c1: "fst (nextHopFailLink ifi s) = ?down"
    by (simp add: unf)
  have same: "LinkDown (ifi\<lparr>upHostsv4 := a, upHostsv6 := b\<rparr>) = LinkDown ifi"
    by (simp add: LinkDown_def)
  have c2: "nextHopFailLink (ifi\<lparr>upHostsv4 := a, upHostsv6 := b\<rparr>) s = nextHopFailLink ifi s"
    by (simp add: nextHopFailLink_unfold same)
  have fields: "DownAction ?down = DownAction ifi" "Name ?down = Name ifi"
    by simp_all
  have famv: "fam AF_INET = ''IPv4''" "fam AF_INET6 = ''IPv6''"
    by (simp_all add: fam_def AF_INET_def AF_INET6_def)
  have co: "CombinedOutput ?mid = CombinedOutput s"
    using familyDown_world [of ?down AF_INET "emit ?note s"] by simp
  have tmid: "trace ?mid =
       trace s
       @ [?note, Printf ''nextHopFail: family %s, interface %q'' [AStr ''IPv4'', AStr (Name ifi)]]
       @ (if DownAction ifi = [] then []
          else Exec (hookCmd (DownAction ifi) ''DOWN'' AF_INET ?down)
            # (case snd (CombinedOutput s (hookCmd (DownAction ifi) ''DOWN'' AF_INET ?down)) of
                 Some e \<Rightarrow> [Printf ''nextHopFail: could not run down_action: %s'' [AErr e]]
               | None \<Rightarrow> [])
            @ (if fst (CombinedOutput s (hookCmd (DownAction ifi) ''DOWN'' AF_INET ?down)) = [] then []
               else [Printf ''>>> %q'' [AStr (fst (CombinedOutput s (hookCmd (DownAction ifi) ''DOWN'' AF_INET ?down)))]]))
       @ demotions ?down AF_INET s"
    by (simp add: familyDown_trace fields famv)
  have c3: "trace (snd (nextHopFailLink ifi s)) =
       trace s
       @ [?note, Printf ''nextHopFail: family %s, interface %q'' [AStr ''IPv4'', AStr (Name ifi)]]
       @ (if DownAction ifi = [] then []
          else Exec (hookCmd (DownAction ifi) ''DOWN'' AF_INET ?down)
            # (case snd (CombinedOutput s (hookCmd (DownAction ifi) ''DOWN'' AF_INET ?down)) of
                 Some e \<Rightarrow> [Printf ''nextHopFail: could not run down_action: %s'' [AErr e]]
               | None \<Rightarrow> [])
            @ (if fst (CombinedOutput s (hookCmd (DownAction ifi) ''DOWN'' AF_INET ?down)) = [] then []
               else [Printf ''>>> %q'' [AStr (fst (CombinedOutput s (hookCmd (DownAction ifi) ''DOWN'' AF_INET ?down)))]]))
       @ demotions ?down AF_INET s
       @ [?note, Printf ''nextHopFail: family %s, interface %q'' [AStr ''IPv6'', AStr (Name ifi)]]
       @ (if DownAction ifi = [] then []
          else Exec (hookCmd (DownAction ifi) ''DOWN'' AF_INET6 ?down)
            # (case snd (CombinedOutput s (hookCmd (DownAction ifi) ''DOWN'' AF_INET6 ?down)) of
                 Some e \<Rightarrow> [Printf ''nextHopFail: could not run down_action: %s'' [AErr e]]
               | None \<Rightarrow> [])
            @ (if fst (CombinedOutput s (hookCmd (DownAction ifi) ''DOWN'' AF_INET6 ?down)) = [] then []
               else [Printf ''>>> %q'' [AStr (fst (CombinedOutput s (hookCmd (DownAction ifi) ''DOWN'' AF_INET6 ?down)))]]))
       @ demotions ?down AF_INET6 ?mid"
    unfolding unf snd_conv
    by (simp add: familyDown_trace [of ?down AF_INET6] tmid famv co)
  have c4: "demotions ?down AF_INET s
              = map RouteDelete (filter (is_gateway_of 254 AF_INET idx) (routes s))
          \<and> demotions ?down AF_INET6 ?mid
              = map RouteDelete (filter (is_gateway_of 254 AF_INET6 idx) (routes s))
          \<and> routes (snd (nextHopFailLink ifi s))
              = filter (\<lambda>r. \<not> is_gateway_of 254 AF_INET idx r
                             \<and> \<not> is_gateway_of 254 AF_INET6 idx r) (routes s)"
    if h: "InterfaceByName s (Name ifi) = Some idx" "listErr s = None" "distinct_keys (routes s)"
  proof -
    have w: "InterfaceByName ?mid = InterfaceByName s" "listErr ?mid = listErr s"
      using familyDown_world [of ?down AF_INET "emit ?note s"] by simp_all
    have r1: "routes ?mid = filter (\<lambda>r. \<not> is_gateway_of 254 AF_INET idx r) (routes s)"
      using h by (simp add: familyDown_routes [where idx = idx])
    have d1: "distinct_keys (routes ?mid)"
      using h(3) by (simp add: r1 distinct_keys_filter)
    have r2: "routes (familyDown ?down AF_INET6 (emit ?note ?mid))
                = filter (\<lambda>r. \<not> is_gateway_of 254 AF_INET6 idx r) (routes ?mid)"
      using h w d1 by (simp add: familyDown_routes [where idx = idx])
    have a: "demotions ?down AF_INET s
              = map RouteDelete (filter (is_gateway_of 254 AF_INET idx) (routes s))"
      using h by (simp add: demotions_known [where idx = idx])
    have b: "demotions ?down AF_INET6 ?mid
              = map RouteDelete (filter (is_gateway_of 254 AF_INET6 idx) (routes s))"
      using h w
      by (simp add: demotions_known [where idx = idx] r1 gateway_families_apart
          gateway_families_apart')
    have c: "routes (snd (nextHopFailLink ifi s))
              = filter (\<lambda>r. \<not> is_gateway_of 254 AF_INET idx r
                             \<and> \<not> is_gateway_of 254 AF_INET6 idx r) (routes s)"
      by (simp add: unf r2 r1)
    from a b c show ?thesis by blast
  qed
  have c5: "case linkUp (fst (nextHopFailLink ifi s)) (snd (nextHopFailLink ifi s)) of
           (d, s2) \<Rightarrow>
             (case discover fgf es (d, fst (nextHopFailLink ifi s), s2) of
                Panics m \<Rightarrow> True
              | Returns (d', ifi', s') \<Rightarrow>
                  ifi' = ?down \<and> Up F ifi' = 0)"
    if n: "list_all no_address es"
  proof -
    have z: "Up F ?down = 0"
      by (simp add: Up_def Up4_def Up6_def)
    have k: "aa = ?down" if "discover fgf es (x1, ?down, x2) = Returns (a', aa, b')"
      for x1 x2 a' aa b'
      using discover_no_address_keeps [OF n that] .
    show ?thesis
      using z by (auto simp: c1 split: prod.splits outcome.splits dest!: k)
  qed
  show ?thesis
    using c1 c2 c3 c4 c5 by (simp add: Let_def)
qed

theorem link_down_resets_and_demotes_witness:
  "InterfaceByName (world0\<lparr>routes := [main_via_eth0, via_eth0]\<rparr>)
       (Name (dual_stack\<lparr>DownAction := ''/bin/true'', upHostsv4 := 1\<rparr>)) = Some 2
   \<and> listErr (world0\<lparr>routes := [main_via_eth0, via_eth0]\<rparr>) = None
   \<and> distinct_keys (routes (world0\<lparr>routes := [main_via_eth0, via_eth0]\<rparr>))
   \<and> list_all no_address [Timer4 None]
   \<and> routes (snd (nextHopFailLink (dual_stack\<lparr>DownAction := ''/bin/true'', upHostsv4 := 1\<rparr>)
                     (world0\<lparr>routes := [main_via_eth0, via_eth0]\<rparr>))) = [via_eth0]
   \<and> upHostsv4 (fst (nextHopFailLink (dual_stack\<lparr>DownAction := ''/bin/true'', upHostsv4 := 1\<rparr>)
                     (world0\<lparr>routes := [main_via_eth0, via_eth0]\<rparr>))) = 0"
proof -
  let ?s = "world0\<lparr>routes := [main_via_eth0, via_eth0]\<rparr>"
  let ?i = "dual_stack\<lparr>DownAction := ''/bin/true'', upHostsv4 := 1\<rparr>"
  have h1: "InterfaceByName ?s (Name ?i) = Some 2"
    by (simp add: world0_def dual_stack_def)
  have h2: "listErr ?s = None"
    by (simp add: world0_def)
  have h3: "distinct_keys (routes ?s)"
    by (simp add: main_via_eth0_def via_eth0_def same_route_def)
  have h4: "list_all no_address [Timer4 None]"
    by simp
  have g: "filter (\<lambda>r. \<not> is_gateway_of 254 AF_INET 2 r \<and> \<not> is_gateway_of 254 AF_INET6 2 r)
             (routes ?s) = [via_eth0]"
    by (simp add: main_via_eth0_def via_eth0_def is_gateway_of_def AF_INET_def AF_INET6_def)
  from link_down_resets_and_demotes [where ifi = ?i and s = ?s and idx = 2]
  have r: "routes (snd (nextHopFailLink ?i ?s))
            = filter (\<lambda>r. \<not> is_gateway_of 254 AF_INET 2 r \<and> \<not> is_gateway_of 254 AF_INET6 2 r)
                (routes ?s)"
    and u: "fst (nextHopFailLink ?i ?s) = ?i\<lparr>upHostsv4 := 0, upHostsv6 := 0\<rparr>"
    using h1 h2 h3 by (simp_all add: Let_def)
  show ?thesis
    using h1 h2 h3 h4 r g u by simp
qed

section \<open>Changing a metric\<close>

text \<open>
  C7 (fails on the code): \<open>ChangeMetric\<close> of \<open>internal/routesync/metric.go\<close> deletes the
  route first and adds it with the new metric afterwards.  With the default route through
  \<open>eth0\<close> as the only route, the table is empty after the first request: the destination
  has no route until the second request is served.
\<close>

theorem ChangeMetric_leaves_gap:
  "fst (ChangeMetric (world0\<lparr>routes := [via_eth0]\<rparr>) via_eth0 200) = None
   \<and> trace (snd (ChangeMetric (world0\<lparr>routes := [via_eth0]\<rparr>) via_eth0 200))
       = [RouteDelete via_eth0, RouteAdd (via_eth0\<lparr>aPriority := 200\<rparr>)]
   \<and> tables (snd (ChangeMetric (world0\<lparr>routes := [via_eth0]\<rparr>) via_eth0 200))
       = [[], [via_eth0\<lparr>aPriority := 200\<rparr>]]
   \<and> has_route_to via_eth0 [via_eth0]
   \<and> \<not> has_route_to via_eth0 (tables (snd (ChangeMetric (world0\<lparr>routes := [via_eth0]\<rparr>) via_eth0 200)) ! 0)"
  by (simp add: ChangeMetric_def Route_Delete_def Route_Add_def emit_def set_routes_def
      same_route_def has_route_to_def world0_def via_eth0_def Let_def AF_INET_def)

section \<open>Rules\<close>

text \<open>
  C10: with a nil \<open>from\<close>, \<open>ruleAdd\<close> returns an error and leaves the server and the
  kernel as they are: no request is sent.  With a \<open>from\<close> whose address is not IPv4, the
  rule message sent has family \<open>AF_INET6\<close>, whatever family the caller passed (a nil
  \<open>to\<close> is dereferenced before any message is built).
\<close>

theorem ruleAdd_nil_from_and_family:
  "ruleAdd None to table priority family s = Returns (Some (Err ''ipRuleDo: from ip is nil''), s)
   \<and> (To4 (nIP f) = None \<longrightarrow>
        ruleAdd (Some f) to table priority family s =
          (case to of
             None \<Rightarrow> Panics ''invalid memory address or nil pointer dereference''
           | Some t \<Rightarrow>
               Returns (Rule_Add \<lparr>ruFamily = AF_INET6,
                          ruSrcLength = of_nat (fst (Size (nMask f))),
                          ruDstLength = of_nat (fst (Size (nMask t))),
                          ruAction = FR_ACT_TO_TBL, ruSrc = nIP f, ruDst = netIPPtr (nIP t),
                          ruTable = table, ruPriority = priority\<rparr> s)))"
  by (simp add: ruleAdd_def netIPPtr_def Let_def split: option.splits)

theorem ruleAdd_nil_from_and_family_witness:
  "To4 (nIP \<lparr>nIP = src6, nMask = [255, 255, 255, 255, 255, 255, 255, 255, 255, 255, 255, 255, 255, 255, 255, 255]\<rparr>) = None
   \<and> (case ruleAdd
          (Some \<lparr>nIP = src6, nMask = [255, 255, 255, 255, 255, 255, 255, 255, 255, 255, 255, 255, 255, 255, 255, 255]\<rparr>)
          (Some \<lparr>nIP = src6, nMask = [255, 255, 255, 255, 255, 255, 255, 255, 255, 255, 255, 255, 255, 255, 255, 255]\<rparr>)
          2 1 AF_INET world0 of
        Panics m \<Rightarrow> []
      | Returns (e, s) \<Rightarrow> map ruFamily (rules s)) = [AF_INET6]"
proof -
  have h: "To4 (nIP \<lparr>nIP = src6, nMask = [255, 255, 255, 255, 255, 255, 255, 255, 255, 255, 255, 255, 255, 255, 255, 255]\<rparr>) = None"
    by (simp add: To4_def src6_def)
  show ?thesis
    using ruleAdd_nil_from_and_family [of "Some \<lparr>nIP = src6, nMask = [255, 255, 255, 255, 255, 255, 255, 255, 255, 255, 255, 255, 255, 255, 255, 255]\<rparr>" 2 1 AF_INET world0
        "\<lparr>nIP = src6, nMask = [255, 255, 255, 255, 255, 255, 255, 255, 255, 255, 255, 255, 255, 255, 255, 255]\<rparr>"] h
    by (simp add: Rule_Add_def emit_def world0_def Let_def)
qed

section \<open>Hook commands\<close>

text \<open>
  C8, as the code has it: a hook with a non-empty action is run as
  \<open>/run/current-system/sw/bin/env sh -c\<close> with the script text wrapped in single quotes
  as the command string, and with exactly the environment \<open>EVENT\<close>, \<open>FAMILY\<close> (IPv4 for
  \<open>AF_INET\<close>, IPv6 for \<open>AF_INET6\<close>), \<open>NAME\<close>, \<open>DESCRIPTION\<close> (wrapped in single
  quotes), \<open>TABLE\<close>, \<open>UP_HOSTS4\<close>, \<open>UP_HOSTS6\<close> and \<open>MINIMUM_UP\<close>; an empty action
  runs nothing.  Family-Down and Family-Up log a failure of the command and its combined
  output, and send the gateway requests whatever the command returned.
\<close>

theorem hook_execution:
  "execScript event family ifi s =
     (let script = (if event = ''DOWN'' then DownAction ifi else UpAction ifi);
          cmd = \<lparr>Path = ''/run/current-system/sw/bin/env'',
                 Args = [''/run/current-system/sw/bin/env'', ''sh'', ''-c'',
                         [CHR 0x27] @ script @ [CHR 0x27]],
                 Env = [''EVENT='' @ event,
                        ''FAMILY='' @ (if family = AF_INET6 then ''IPv6''
                                       else if family = AF_INET then ''IPv4'' else ''UNKNOWN''),
                        ''NAME='' @ Name ifi,
                        ''DESCRIPTION='' @ [CHR 0x27] @ Description ifi @ [CHR 0x27],
                        ''TABLE='' @ Sprintf_d (uint (Table ifi)),
                        ''UP_HOSTS4='' @ Sprintf_d (sint (Up4 ifi)),
                        ''UP_HOSTS6='' @ Sprintf_d (sint (Up6 ifi)),
                        ''MINIMUM_UP='' @ Sprintf_d (MinimumUp ifi)]\<rparr>
      in if script = [] then (([], None), s)
         else (CombinedOutput s cmd, emit (Exec cmd) s))
   \<and> trace (familyDown ifi family s) =
       trace s @ [Printf ''nextHopFail: family %s, interface %q'' [AStr (fam family), AStr (Name ifi)]]
       @ (if DownAction ifi = [] then []
          else Exec (hookCmd (DownAction ifi) ''DOWN'' family ifi)
            # (case snd (CombinedOutput s (hookCmd (DownAction ifi) ''DOWN'' family ifi)) of
                 Some e \<Rightarrow> [Printf ''nextHopFail: could not run down_action: %s'' [AErr e]]
               | None \<Rightarrow> [])
            @ (if fst (CombinedOutput s (hookCmd (DownAction ifi) ''DOWN'' family ifi)) = [] then []
               else [Printf ''>>> %q''
                       [AStr (fst (CombinedOutput s (hookCmd (DownAction ifi) ''DOWN'' family ifi)))]]))
       @ demotions ifi family s
   \<and> trace (familyUp ifi family s) =
       trace s @ [Printf ''nextHopAvailable: family %s, interface %q'' [AStr (fam family), AStr (Name ifi)]]
       @ (if UpAction ifi = [] then []
          else Exec (hookCmd (UpAction ifi) ''UP'' family ifi)
            # (case snd (CombinedOutput s (hookCmd (UpAction ifi) ''UP'' family ifi)) of
                 Some e \<Rightarrow> [Printf ''nextHopAvailable: could not run up_action: %s'' [AErr e]]
               | None \<Rightarrow> [])
            @ (if fst (CombinedOutput s (hookCmd (UpAction ifi) ''UP'' family ifi)) = [] then []
               else [Printf ''>>> %q''
                       [AStr (fst (CombinedOutput s (hookCmd (UpAction ifi) ''UP'' family ifi)))]]))
       @ promotions ifi family s"
proof -
  have a: "execScript event family ifi s =
     (let script = (if event = ''DOWN'' then DownAction ifi else UpAction ifi);
          cmd = \<lparr>Path = ''/run/current-system/sw/bin/env'',
                 Args = [''/run/current-system/sw/bin/env'', ''sh'', ''-c'',
                         [CHR 0x27] @ script @ [CHR 0x27]],
                 Env = [''EVENT='' @ event,
                        ''FAMILY='' @ (if family = AF_INET6 then ''IPv6''
                                       else if family = AF_INET then ''IPv4'' else ''UNKNOWN''),
                        ''NAME='' @ Name ifi,
                        ''DESCRIPTION='' @ [CHR 0x27] @ Description ifi @ [CHR 0x27],
                        ''TABLE='' @ Sprintf_d (uint (Table ifi)),
                        ''UP_HOSTS4='' @ Sprintf_d (sint (Up4 ifi)),
                        ''UP_HOSTS6='' @ Sprintf_d (sint (Up6 ifi)),
                        ''MINIMUM_UP='' @ Sprintf_d (MinimumUp ifi)]\<rparr>
      in if script = [] then (([], None), s)
         else (CombinedOutput s cmd, emit (Exec cmd) s))"
    by (simp add: execScript_def hookCmd_def ifiToEnv_def fam_def Let_def)
  show ?thesis
    using a familyDown_trace [of ifi family s] familyUp_trace [of ifi family s] by blast
qed

text \<open>
  C8 as stated fails: for the up action \<open>/bin/true\<close> the command run is not
  \<open>/bin/sh -c /bin/true\<close> with the plain environment the claim lists; the program is
  \<open>/run/current-system/sw/bin/env\<close>, the command string is the script in single quotes,
  and so is the description.
\<close>

theorem hook_execution_counterexample:
  "trace (snd (execScript ''UP'' AF_INET (dual_stack\<lparr>UpAction := ''/bin/true''\<rparr>) world0))
     = [Exec \<lparr>Path = ''/run/current-system/sw/bin/env'',
              Args = [''/run/current-system/sw/bin/env'', ''sh'', ''-c'',
                      [CHR 0x27] @ ''/bin/true'' @ [CHR 0x27]],
              Env = [''EVENT=UP'', ''FAMILY=IPv4'', ''NAME=eth0'',
                     ''DESCRIPTION='' @ [CHR 0x27, CHR 0x27],
                     ''TABLE=2'', ''UP_HOSTS4=0'', ''UP_HOSTS6=0'', ''MINIMUM_UP=1'']\<rparr>]
   \<and> trace (snd (execScript ''UP'' AF_INET (dual_stack\<lparr>UpAction := ''/bin/true''\<rparr>) world0))
     \<noteq> [Exec \<lparr>Path = ''/bin/sh'',
              Args = [''/bin/sh'', ''-c'', ''/bin/true''],
              Env = [''EVENT=UP'', ''FAMILY=IPv4'', ''NAME=eth0'', ''DESCRIPTION='',
                     ''TABLE=2'', ''UP_HOSTS4=0'', ''UP_HOSTS6=0'', ''MINIMUM_UP=1'']\<rparr>]"
  by (simp add: execScript_def hookCmd_def ifiToEnv_def fam_def Let_def emit_def world0_def
      dual_stack_def AF_INET_def AF_INET6_def Up4_def Up6_def Sprintf_d_def digits.simps)

section \<open>The add-first variant\<close>

lemma has_route_to_filter:
  "has_route_to msg rs \<longleftrightarrow> filter (\<lambda>r. rFamily r = rFamily msg \<and> aTable r = aTable msg
     \<and> aDst r = aDst msg \<and> rDstLength r = rDstLength msg) rs \<noteq> []"
  by (auto simp: has_route_to_def list_ex_iff filter_empty_conv)

lemma delete_first_count:
  "length (filter P rs) \<le> Suc (length (filter P (delete_first m rs)))"
  by (induction rs) auto

text \<open>
  The \<open>ChangeMetric\<close> that adds first keeps a route to the destination after every
  request, when there was one before.
\<close>

lemma ChangeMetric_add_first_no_gap:
  assumes "has_route_to msg (routes conn)" and "tables conn = []"
  shows "list_all (has_route_to msg) (tables (snd (ChangeMetric_add_first conn msg metric)))"
proof -
  let ?P = "\<lambda>r. rFamily r = rFamily msg \<and> aTable r = aTable msg
     \<and> aDst r = aDst msg \<and> rDstLength r = rDstLength msg"
  let ?m2 = "msg\<lparr>rFlags := 0, aPriority := metric\<rparr>"
  let ?m3 = "msg\<lparr>rFlags := 0\<rparr>"
  have c: "filter ?P (routes conn) \<noteq> []"
    using assms(1) by (simp add: has_route_to_filter)
  then have c': "0 < length (filter ?P (routes conn))"
    by (rule length_greater_0_conv [THEN iffD2])
  have "length (filter ?P (routes conn @ [?m2])) \<le>
          Suc (length (filter ?P (delete_first ?m3 (routes conn @ [?m2]))))"
    by (rule delete_first_count)
  then have e: "length (filter ?P (routes conn)) \<le>
          length (filter ?P (delete_first ?m3 (routes conn @ [?m2])))"
    by simp
  have "0 < length (filter ?P (delete_first ?m3 (routes conn @ [?m2])))"
    using c' e by linarith
  then have d: "filter ?P (delete_first ?m3 (routes conn @ [?m2])) \<noteq> []"
    by (rule length_greater_0_conv [THEN iffD1])
  show ?thesis
    using assms(2) c d
    by (simp add: ChangeMetric_add_first_def Route_Add_def Route_Delete_def set_routes_def
        emit_def Let_def has_route_to_filter split: prod.splits)
qed

section \<open>Rejected configurations\<close>

lemma parseBurstSize_ok:
  "parseBurstSize b def = Inr n \<Longrightarrow> \<not> burst_out_of_range b"
  by (auto simp: parseBurstSize_def burst_out_of_range_def BURSTSIZE_MIN_def BURSTSIZE_MAX_def
      split: option.splits if_splits)

lemma parseHost_ok:
  assumes "parseHost lib h parent = Inr host"
  shows "\<not> burst_out_of_range (chBurstSize h)"
    and "host_key lib h = Some (IPString lib (hHost host))"
  using assms
  by (auto simp: parseHost_def host_key_def split: option.splits sum.splits
      dest: parseBurstSize_ok)

lemma parseHosts_ok:
  assumes "parseHosts lib hs seen ifi = Inr ifi'"
  shows "distinct (map (host_key lib) hs)
     \<and> (\<forall>h \<in> set hs. host_key lib h \<notin> Some ` set seen)
     \<and> (\<forall>h \<in> set hs. \<not> burst_out_of_range (chBurstSize h))"
  using assms
proof (induction hs arbitrary: seen ifi)
  case Nil
  then show ?case by simp
next
  case (Cons h hs)
  from Cons.prems obtain host where ph: "parseHost lib h ifi = Inr host"
    by (auto split: sum.splits)
  let ?k = "IPString lib (hHost host)"
  let ?ifi = "ifi\<lparr>Hosts := Hosts ifi @ [host],
                  totalHostsv4 := (if hFamily host = AF_INET then totalHostsv4 ifi + 1
                                   else totalHostsv4 ifi),
                  totalHostsv6 := (if hFamily host = AF_INET6 then totalHostsv6 ifi + 1
                                   else totalHostsv6 ifi)\<rparr>"
  from Cons.prems ph have fresh: "?k \<notin> set seen"
    and rest: "parseHosts lib hs (?k # seen) ?ifi = Inr ifi'"
    by (auto split: if_splits)
  have key: "host_key lib h = Some ?k" and burst: "\<not> burst_out_of_range (chBurstSize h)"
    using parseHost_ok [OF ph] by simp_all
  from Cons.IH [OF rest]
  have d: "distinct (map (host_key lib) hs)"
    and n: "\<forall>x \<in> set hs. host_key lib x \<notin> Some ` set (?k # seen)"
    and b: "\<forall>x \<in> set hs. \<not> burst_out_of_range (chBurstSize x)"
    by blast+
  from n have n1: "\<forall>x \<in> set hs. host_key lib x \<noteq> Some ?k"
    and n2: "\<forall>x \<in> set hs. host_key lib x \<notin> Some ` set seen"
    by auto
  show ?case
    using d n1 n2 b key burst fresh by auto
qed

lemma parseHosts_Name:
  "parseHosts lib hs seen ifi = Inr ifi' \<Longrightarrow> Name ifi' = Name ifi"
  by (induction hs arbitrary: seen ifi) (auto split: sum.splits if_splits)

lemma parseInterface_ok:
  assumes "parseInterface lib ifc c = Inr ifi"
  shows "\<not> invalid_interface lib ifc" and "Name ifi = ciName ifc"
proof -
  from assms obtain table metric minimumUp bs ifi0 where
    t: "parseTable (ciTable ifc) = Inr table"
    and m: "parseMetric (ciMetric ifc) table = Inr metric"
    and u: "parseMinimumUp (ciMinimumUp ifc) (ciHosts ifc) = Inr minimumUp"
    and b: "parseBurstSize (ciBurstSize ifc) (gBurstSize c) = Inr bs"
    and h: "parseHosts lib (ciHosts ifc) [] ifi0 = Inr ifi"
    and n0: "Name ifi0 = ciName ifc"
    by (auto simp: parseInterface_def split: sum.splits)
  have t1: "ciTable ifc \<noteq> Some RT_TABLE_LOCAL" "ciTable ifc \<noteq> Some RT_TABLE_MAIN"
    using t by (auto simp: parseTable_def split: option.splits if_splits)
  have t0: "ciTable ifc = None \<Longrightarrow> table = 0"
    using t by (simp add: parseTable_def)
  have m1: "\<not> (ciMetric ifc \<noteq> None \<and> ciTable ifc = None)"
    using m t0 by (auto simp: parseMetric_def split: option.splits if_splits)
  have u1: "\<not> (case ciMinimumUp ifc of None \<Rightarrow> False
         | Some m \<Rightarrow> m > int (length (ciHosts ifc)) \<or> m < 1)"
    using u by (auto simp: parseMinimumUp_def split: option.splits if_splits)
  have b1: "\<not> burst_out_of_range (ciBurstSize ifc)"
    using b by (rule parseBurstSize_ok)
  have h1: "distinct (map (host_key lib) (ciHosts ifc))"
    and h2: "\<not> list_ex (\<lambda>h. burst_out_of_range (chBurstSize h)) (ciHosts ifc)"
    using parseHosts_ok [OF h] by (auto simp: list_ex_iff)
  show "\<not> invalid_interface lib ifc"
    using t1 m1 u1 b1 h1 h2 by (simp add: invalid_interface_def)
  show "Name ifi = ciName ifc"
    using parseHosts_Name [OF h] n0 by simp
qed

lemma parseInterfaces_ok:
  assumes "parseInterfaces lib ifs seen c = Inr c'"
  shows "distinct (map ciName ifs)
     \<and> (\<forall>i \<in> set ifs. ciName i \<notin> set seen)
     \<and> (\<forall>i \<in> set ifs. \<not> invalid_interface lib i)"
  using assms
proof (induction ifs arbitrary: seen c)
  case Nil
  then show ?case by simp
next
  case (Cons i ifs)
  from Cons.prems obtain ifi where pi: "parseInterface lib i c = Inr ifi"
    by (auto split: sum.splits)
  have nm: "Name ifi = ciName i" and ok: "\<not> invalid_interface lib i"
    using parseInterface_ok [OF pi] by simp_all
  from Cons.prems pi nm have fresh: "ciName i \<notin> set seen"
    and rest: "parseInterfaces lib ifs (ciName i # seen) (c\<lparr>gInterfaces := gInterfaces c @ [ifi]\<rparr>) = Inr c'"
    by (auto split: if_splits)
  from Cons.IH [OF rest] show ?case
    using fresh ok by auto
qed

text \<open>
  C9: parsing returns an error, and no configuration, for every decoded file with a
  duplicate interface name, a duplicate host address within one interface, a table equal
  to the local or the main table, a burst size outside 1 to 5 (globally, on an interface
  or on a host), a \<open>minimum_up\<close> above the number of hosts or below 1, or a metric
  without a table.
\<close>

theorem Parse_rejects:
  assumes "invalid_config lib cfg"
  shows "isl (Parse lib (Inr cfg))"
proof (rule ccontr)
  assume "\<not> isl (Parse lib (Inr cfg))"
  then obtain c where p: "Parse lib (Inr cfg) = Inr c"
    by (cases "Parse lib (Inr cfg)") auto
  then obtain bs c0 where b: "parseBurstSize (fBurstSize cfg) DEF_BURSTSIZE = Inr bs"
    and l: "parseInterfaces lib (fInterfaces cfg) [] c0 = Inr c"
    by (auto simp: Parse_def split: sum.splits if_splits)
  have "\<not> burst_out_of_range (fBurstSize cfg)"
    using b by (rule parseBurstSize_ok)
  moreover have "distinct (map ciName (fInterfaces cfg))"
    and "\<not> list_ex (invalid_interface lib) (fInterfaces cfg)"
    using parseInterfaces_ok [OF l] by (auto simp: list_ex_iff)
  ultimately have "\<not> invalid_config lib cfg"
    by (simp add: invalid_config_def)
  with assms show False by simp
qed

theorem Parse_rejects_witness:
  "invalid_config lib0 twice_file \<and> isl (Parse lib0 (Inr twice_file))"
proof -
  have h: "invalid_config lib0 twice_file"
    by (simp add: invalid_config_def twice_file_def good_file_def)
  show ?thesis
    using Parse_rejects [OF h] h by simp
qed

text \<open>The file with the interface listed once is accepted, with both hosts counted as IPv4.\<close>

lemma Parse_accepts_good_file:
  "(case Parse lib0 (Inr good_file) of
      Inl e \<Rightarrow> []
    | Inr c \<Rightarrow> map (\<lambda>i. (Name i, Table i, Metric i, MinimumUp i, totalHostsv4 i, totalHostsv6 i,
                          map hName (Hosts i))) (gInterfaces c))
     = [(''eth0'', 2, 1000, 1, 2, 0, [''Cloudflare'', ''Google''])]"
  by (simp add: Parse_def good_file_def eth0_cfg_def parseInterface_def parseHost_def lib0_def
      parseBurstSize_def parseDuration_def parseTable_def parseMetric_def parseMinimumUp_def
      To4_def AF_INET_def AF_INET6_def TABLE_MAX_def RT_TABLE_LOCAL_def RT_TABLE_MAIN_def
      DEF_MINIMUMUP_def DEF_BURSTSIZE_def BURSTSIZE_MIN_def BURSTSIZE_MAX_def)

section \<open>Where the counter bound does hold\<close>

text \<open>
  The IPv6 counter stays between 0 and its total over every sequence of calls (for a
  total below the int32 maximum): the misplaced store of \<open>hostDownv4\<close> writes 0 to it,
  which is in range.  The IPv4 counter never exceeds its total, but it can fall below 0.
\<close>

lemma do_call_v6_in_bounds:
  assumes "v6_in_bounds i"
  shows "v6_in_bounds (do_call c i)"
proof (cases c)
  case (CallHostUp f)
  then show ?thesis
    using assms
    by (auto simp: v6_in_bounds_def HostUp_def hostUpv4_def hostUpv6_def Let_def sint_plus_one)
next
  case (CallHostDown f)
  then show ?thesis
    using assms
    by (auto simp: v6_in_bounds_def HostDown_def hostDownv4_def hostDownv6_def Let_def
        sint_minus_one)
qed

lemma run_calls_v6_in_bounds:
  "v6_in_bounds i \<Longrightarrow> v6_in_bounds (run_calls cs i)"
  by (induction cs arbitrary: i) (simp_all add: do_call_v6_in_bounds)

end
